theory Spec2Isabelle
  imports Complex_Main "HOL-Library.Char_ord" "HOL-Library.List_Lexorder"
begin

section \<open>Python values, exceptions and callables\<close>

text \<open>
  The decorators of \<^verbatim>\<open>src/decorator\<close> and the helpers of \<^verbatim>\<open>src/provider\<close> work on
  arbitrary Python call arguments. A value is \<^verbatim>\<open>None\<close>, a bool, an int, a str, a list, an
  opaque object without \<^verbatim>\<open>__dict__\<close> (a date, a datetime), or an instance with a
  \<^verbatim>\<open>__dict__\<close>. The two object constructors carry the text that \<^verbatim>\<open>str()\<close> returns for the
  object; an instance also carries its \<^verbatim>\<open>__dict__\<close> in insertion order. Strings are lists of
  code points below 256. Floats and nested dicts do not occur among the entity fields of
  \<^verbatim>\<open>src/domain\<close> and are not modelled.
\<close>

datatype pyval =
    PyNone
  | PyBool bool
  | PyInt int
  | PyStr string
  | PyList "pyval list"
  | PyOpaque string
  | PyObj string "(string \<times> pyval) list"

type_synonym pydict = "(string \<times> pyval) list"

text \<open>
  Instances of Python's \<^verbatim>\<open>Exception\<close> class, the class named by the \<^verbatim>\<open>except Exception\<close>
  clauses of the source. Message texts are not modelled; \<open>Raised\<close> stands for any other
  exception class raised by wrapped business logic, identified by a tag.
\<close>

datatype exn =
    ValueError
  | TypeError
  | AttributeError
  | LookupError
  | ModuleNotFoundError
  | Raised string

text \<open>Truth value testing, as \<^verbatim>\<open>if x\<close> and \<^verbatim>\<open>not x\<close> do it.\<close>

fun truthy :: "pyval \<Rightarrow> bool" where
  "truthy PyNone = False"
| "truthy (PyBool b) = b"
| "truthy (PyInt i) = (i \<noteq> 0)"
| "truthy (PyStr s) = (s \<noteq> [])"
| "truthy (PyList xs) = (xs \<noteq> [])"
| "truthy (PyOpaque r) = True"
| "truthy (PyObj r attrs) = True"

text \<open>\<^verbatim>\<open>d.get(k)\<close>: the value stored under \<open>k\<close>, \<^verbatim>\<open>None\<close> when the key is missing.\<close>

definition dict_get :: "pydict \<Rightarrow> string \<Rightarrow> pyval" where
  "dict_get d k = (case map_of d k of None \<Rightarrow> PyNone | Some v \<Rightarrow> v)"

text \<open>\<^verbatim>\<open>hasattr(o, name)\<close> and \<^verbatim>\<open>getattr(o, name)\<close> on instance attributes.\<close>

fun hasattr :: "pyval \<Rightarrow> string \<Rightarrow> bool" where
  "hasattr (PyObj r attrs) name = (map_of attrs name \<noteq> None)"
| "hasattr v name = False"

fun getattr :: "pyval \<Rightarrow> string \<Rightarrow> exn + pyval" where
  "getattr (PyObj r attrs) name =
     (case map_of attrs name of None \<Rightarrow> Inl AttributeError | Some v \<Rightarrow> Inr v)"
| "getattr v name = Inl AttributeError"

text \<open>\<^verbatim>\<open>o.__dict__.copy()\<close>: only instances have a \<^verbatim>\<open>__dict__\<close>.\<close>

fun dunder_dict :: "pyval \<Rightarrow> exn + pydict" where
  "dunder_dict (PyObj r attrs) = Inr attrs"
| "dunder_dict v = Inl AttributeError"

section \<open>Collaborators: session, repositories, clock\<close>

text \<open>
  The audit record built by the history decorator (the \<^verbatim>\<open>{Entity}HistoryDomain\<close> dataclasses).
  Field \<open>entity_seq\<close> is the dataclass field named \<^verbatim>\<open>{entity}_seq\<close>.
\<close>

record history_domain =
  entity_seq :: pyval
  action_type :: string
  before_value :: "string option"
  after_value :: "string option"
  username :: pyval
  created_at :: int

text \<open>
  Every invocation of a collaborator is recorded, as a mock would count it: the repository
  lookup \<^verbatim>\<open>get_{entity}_by_seq(db, seq)\<close>, the history write
  \<^verbatim>\<open>save_history(db, domain, ...)\<close>, and the session's \<^verbatim>\<open>commit()\<close> and \<^verbatim>\<open>rollback()\<close>.
  These calls are taken to return normally; an exception raised by the session or by a
  repository itself is outside the model.
\<close>

datatype call =
    RepoGet string pyval pyval
  | SaveHistory string pyval history_domain
  | Commit pyval
  | Rollback pyval

text \<open>
  The world the decorators run in: the persisted entities (per entity kind and identifier;
  \<^verbatim>\<open>None\<close> when there is no row), the recorded collaborator calls, and the UTC clock in
  seconds.
\<close>

record world =
  rows :: "string \<Rightarrow> pyval \<Rightarrow> pyval"
  calls :: "call list"
  utc_now :: int

text \<open>
  A Python function object: what \<^verbatim>\<open>inspect.signature\<close> reports about it (the declared
  parameter names and the binding of a call's arguments by \<^verbatim>\<open>bind_partial\<close>) and its body,
  which may read and change the world and either returns a value or raises.
\<close>

record pyfunc =
  parameters :: "string list"
  bind_partial :: "pyval list \<Rightarrow> pydict \<Rightarrow> exn + pydict"
  call :: "pyval list \<Rightarrow> pydict \<Rightarrow> world \<Rightarrow> (exn + pyval) \<times> world"

text \<open>
  \<^verbatim>\<open>Signature.bind_partial\<close> for a function whose parameters are all plain
  (positional-or-keyword), as \<^verbatim>\<open>def f(self, db, employee_seq)\<close>: too many positional
  arguments, a keyword that repeats a positionally bound parameter, and an unknown keyword
  raise \<^verbatim>\<open>TypeError\<close>; otherwise the positional arguments are bound first and the keywords
  follow in parameter order. Missing arguments are no error for a partial binding.
\<close>

definition plain_bind_partial :: "string list \<Rightarrow> pyval list \<Rightarrow> pydict \<Rightarrow> exn + pydict" where
  "plain_bind_partial params args kwargs =
     (let positional = take (length args) params;
          rest = drop (length args) params
      in if length params < length args then Inl TypeError
         else if list_ex (\<lambda>p. map_of kwargs p \<noteq> None) positional then Inl TypeError
         else if list_ex (\<lambda>k. k \<notin> set rest) (map fst kwargs) then Inl TypeError
         else Inr (zip positional args @
                   concat (map (\<lambda>p. case map_of kwargs p of None \<Rightarrow> [] | Some v \<Rightarrow> [(p, v)]) rest)))"

definition def_function ::
  "string list \<Rightarrow> (pyval list \<Rightarrow> pydict \<Rightarrow> world \<Rightarrow> (exn + pyval) \<times> world) \<Rightarrow> pyfunc" where
  "def_function params body =
     \<lparr>parameters = params, bind_partial = plain_bind_partial params, call = body\<rparr>"



section \<open>The transactional decorator (\<^verbatim>\<open>src/decorator/transaction.py\<close>)\<close>


section \<open>The history provider (\<^verbatim>\<open>src/provider/history_provider.py\<close>)\<close>

text \<open>\<^verbatim>\<open>param_names.index(key)\<close>, called only after \<^verbatim>\<open>key in param_names\<close>.\<close>

definition index_of :: "string list \<Rightarrow> string \<Rightarrow> nat" where
  "index_of names key = length (takeWhile (\<lambda>p. p \<noteq> key) names)"

text \<open>The value \<^verbatim>\<open>getattr(arg, key)\<close> of an attribute that \<^verbatim>\<open>hasattr\<close> found.\<close>

fun attr_value :: "pyval \<Rightarrow> string \<Rightarrow> pyval" where
  "attr_value (PyObj r attrs) name = dict_get attrs name"
| "attr_value v name = PyNone"

text \<open>
  \<^verbatim>\<open>HistoryProvider.extract_entity_seq(entity, args, kwargs, param_names)\<close>. The three
  assignments to \<^verbatim>\<open>entity_seq\<close> of the source are the three nested bindings; each later step
  runs only when the value found so far is falsy (\<^verbatim>\<open>if not entity_seq\<close>).
\<close>

definition extract_entity_seq :: "string \<Rightarrow> pyval list \<Rightarrow> pydict \<Rightarrow> string list \<Rightarrow> pyval" where
  "extract_entity_seq entity args kwargs param_names =
     (let key = entity @ ''_seq'';
          seq1 = dict_get kwargs key;
          seq2 = (if \<not> truthy seq1 \<and> key \<in> set param_names
                  then (let idx = index_of param_names key
                        in if idx < length args then args ! idx else seq1)
                  else seq1);
          seq3 = (if \<not> truthy seq2
                  then (case find (\<lambda>arg. hasattr arg key) args of
                          Some arg \<Rightarrow> attr_value arg key
                        | None \<Rightarrow> seq2)
                  else seq2)
      in seq3)"

definition exclude_fields :: "string list" where
  "exclude_fields = [''_sa_instance_state'', ''children'']"

text \<open>\<^verbatim>\<open>HistoryProvider.clean_dict(data)\<close>: the dict comprehension keeps the insertion order.\<close>

definition clean_dict :: "pydict \<Rightarrow> pydict" where
  "clean_dict data = filter (\<lambda>kv. fst kv \<notin> set exclude_fields) data"

section \<open>JSON serialisation (\<^verbatim>\<open>json.dumps(d, default=str, sort_keys=True)\<close>)\<close>

text \<open>
  The standard encoder as the history decorator calls it: separators \<^verbatim>\<open>", "\<close> and
  \<^verbatim>\<open>": "\<close>, ASCII-only output (every character outside the printable ASCII range is
  escaped), dict items sorted by key, and \<^verbatim>\<open>default=str\<close> for every value that is not
  \<^verbatim>\<open>None\<close>, a bool, an int, a str or a list: such a value is replaced by its \<^verbatim>\<open>str()\<close>
  text, which is then encoded as a JSON string.
\<close>

definition hex_digit :: "nat \<Rightarrow> char" where
  "hex_digit n = ''0123456789abcdef'' ! (n mod 16)"

definition json_escape_char :: "char \<Rightarrow> string" where
  "json_escape_char c =
     (if c = CHR 0x22 then [CHR 0x5C, CHR 0x22]
      else if c = CHR 0x5C then [CHR 0x5C, CHR 0x5C]
      else if c = CHR 0x0A then [CHR 0x5C, CHR ''n'']
      else if c = CHR 0x0D then [CHR 0x5C, CHR ''r'']
      else if c = CHR 0x09 then [CHR 0x5C, CHR ''t'']
      else if c = CHR 0x08 then [CHR 0x5C, CHR ''b'']
      else if c = CHR 0x0C then [CHR 0x5C, CHR ''f'']
      else if (of_char c :: nat) < 32 \<or> 126 < (of_char c :: nat)
        then [CHR 0x5C, CHR ''u'', CHR ''0'', CHR ''0'',
              hex_digit (of_char c div 16), hex_digit (of_char c mod 16)]
      else [c])"

definition json_string :: "string \<Rightarrow> string" where
  "json_string s = CHR 0x22 # concat (map json_escape_char s) @ [CHR 0x22]"

fun nat_digits :: "nat \<Rightarrow> string" where
  "nat_digits n =
     (if n < 10 then [''0123456789'' ! n]
      else nat_digits (n div 10) @ [''0123456789'' ! (n mod 10)])"

definition int_str :: "int \<Rightarrow> string" where
  "int_str i = (if i < 0 then CHR ''-'' # nat_digits (nat (- i)) else nat_digits (nat i))"

fun join :: "string \<Rightarrow> string list \<Rightarrow> string" where
  "join sep [] = []"
| "join sep [x] = x"
| "join sep (x # y # ys) = x @ sep @ join sep (y # ys)"

fun json_value :: "pyval \<Rightarrow> string" where
  "json_value PyNone = ''null''"
| "json_value (PyBool b) = (if b then ''true'' else ''false'')"
| "json_value (PyInt i) = int_str i"
| "json_value (PyStr s) = json_string s"
| "json_value (PyList xs) = ''['' @ join '', '' (map json_value xs) @ '']''"
| "json_value (PyOpaque r) = json_string r"
| "json_value (PyObj r attrs) = json_string r"

definition json_item :: "string \<times> pyval \<Rightarrow> string" where
  "json_item kv = json_string (fst kv) @ '': '' @ json_value (snd kv)"

definition json_dumps :: "pydict \<Rightarrow> string" where
  "json_dumps d = ''{'' @ join '', '' (map json_item (sort_key fst d)) @ ''}''"

section \<open>The audit-history decorator (\<^verbatim>\<open>src/decorator/history.py\<close>)\<close>

text \<open>
  The entity kinds for which the container registers \<^verbatim>\<open>{entity}_repository\<close>, and those
  that have a \<^verbatim>\<open>{entity}_history_domain\<close> module, a mapper and an
  \<^verbatim>\<open>{entity}_history_repository\<close> (\<^verbatim>\<open>src/config/dependency_registry_config.py\<close>,
  \<^verbatim>\<open>src/domain\<close>, \<^verbatim>\<open>src/mapper\<close>).
\<close>

definition repository_entities :: "string list" where
  "repository_entities =
     [''user'', ''employee'', ''position'', ''rank'', ''organization'',
      ''employee_history'', ''organization_history'']"

definition history_entities :: "string list" where
  "history_entities = [''employee'', ''organization'']"

text \<open>\<^verbatim>\<open>TimeProvider.get_kst_now()\<close>: the UTC clock plus nine hours.\<close>

definition get_kst_now :: "world \<Rightarrow> int" where
  "get_kst_now w = utc_now w + 9 * 3600"

text \<open>\<^verbatim>\<open>json.dumps(d, default=str, sort_keys=True) if d else None\<close>.\<close>

definition dumps_or_none :: "pydict option \<Rightarrow> string option" where
  "dumps_or_none d =
     (case d of None \<Rightarrow> None
      | Some attrs \<Rightarrow> if attrs = [] then None else Some (json_dumps attrs))"

text \<open>
  Step 2 of the wrapper: the before-state, fetched through
  \<^verbatim>\<open>repo.get_{entity}_by_seq(db, entity_seq)\<close> unless the action is INSERT or the
  identifier is falsy.
\<close>

definition fetch_before ::
  "string \<Rightarrow> string \<Rightarrow> pyval \<Rightarrow> pyval \<Rightarrow> world \<Rightarrow> (exn + pydict option) \<times> world" where
  "fetch_before entity action db seq w =
     (if action \<noteq> ''INSERT'' \<and> truthy seq then
        (let before_entity = rows w entity seq;
             w0 = w\<lparr>calls := calls w @ [RepoGet entity db seq]\<rparr>
         in if truthy before_entity then
              (case dunder_dict before_entity of
                 Inl e \<Rightarrow> (Inl e, w0)
               | Inr d \<Rightarrow> (Inr (Some (clean_dict d)), w0))
            else (Inr None, w0))
      else (Inr None, w))"

text \<open>Step 4 of the wrapper: the after-state and the target identifier.\<close>

definition after_state :: "string \<Rightarrow> pyval \<Rightarrow> pyval \<Rightarrow> exn + (pydict option \<times> pyval)" where
  "after_state action seq result =
     (if action = ''DELETE'' then Inr (None, seq)
      else (case dunder_dict result of
              Inl e \<Rightarrow> Inl e
            | Inr d \<Rightarrow>
                (case getattr result ''seq'' of
                   Inl e \<Rightarrow> Inl e
                 | Inr target \<Rightarrow> Inr (Some (clean_dict d), target))))"

definition save_history :: "string \<Rightarrow> pyval \<Rightarrow> history_domain \<Rightarrow> world \<Rightarrow> world" where
  "save_history entity db domain w = w\<lparr>calls := calls w @ [SaveHistory entity db domain]\<rparr>"

text \<open>
  \<^verbatim>\<open>History(entity, action)(func)\<close>: the wrapper, in the order of the source. Resolving the
  repository provider fails with \<^verbatim>\<open>AttributeError\<close> for an unregistered entity kind before
  the wrapped function runs; importing the history domain module fails with
  \<^verbatim>\<open>ModuleNotFoundError\<close> after it has run.
\<close>

definition History :: "string \<Rightarrow> string \<Rightarrow> pyfunc \<Rightarrow> pyfunc" where
  "History entity action func = func\<lparr>call := (\<lambda>args kwargs w.
     case bind_partial func args kwargs of
       Inl e \<Rightarrow> (Inl e, w)
     | Inr bound \<Rightarrow>
         (let db = dict_get bound ''db'' in
          if db = PyNone then (Inl ValueError, w)
          else
            (let user = dict_get kwargs ''username'';
                 param_names = parameters func;
                 seq = extract_entity_seq entity args kwargs param_names
             in if entity \<notin> set repository_entities then (Inl AttributeError, w)
                else
                  (case fetch_before entity action db seq w of
                     (Inl e, w0) \<Rightarrow> (Inl e, w0)
                   | (Inr before_dict, w0) \<Rightarrow>
                       (case call func args kwargs w0 of
                          (Inl e, w1) \<Rightarrow> (Inl e, w1)
                        | (Inr result, w1) \<Rightarrow>
                            (case after_state action seq result of
                               Inl e \<Rightarrow> (Inl e, w1)
                             | Inr (after_dict, target_seq) \<Rightarrow>
                                 if entity \<notin> set history_entities
                                 then (Inl ModuleNotFoundError, w1)
                                 else
                                   (let domain =
                                      \<lparr>entity_seq = target_seq,
                                       action_type = action,
                                       before_value = dumps_or_none before_dict,
                                       after_value = dumps_or_none after_dict,
                                       username = user,
                                       created_at = get_kst_now w1\<rparr>
                                    in (Inr result, save_history entity db domain w1))))))))\<rparr>"

section \<open>Trace identifiers and the clock\<close>

text \<open>
  \<^verbatim>\<open>str(uuid.uuid4())\<close>: the 128-bit integer of the UUID as 32 lower-case hexadecimal
  digits, grouped 8-4-4-4-12 with hyphens. Which UUID \<^verbatim>\<open>uuid4()\<close> returns is an input of
  every operation that draws one.
\<close>

definition hex32 :: "nat \<Rightarrow> string" where
  "hex32 n = map (\<lambda>i. hex_digit ((n div 16 ^ (31 - i)) mod 16)) [0..<32]"

definition uuid_str :: "nat \<Rightarrow> string" where
  "uuid_str u =
     (let h = hex32 u
      in take 8 h @ ''-'' @ take 4 (drop 8 h) @ ''-'' @ take 4 (drop 12 h) @ ''-'' @
         take 4 (drop 16 h) @ ''-'' @ drop 20 h)"

text \<open>
  Python's \<^verbatim>\<open>round(x, 2)\<close>: the nearest multiple of 0.01, a tie going to the even
  neighbour. Seconds and milliseconds are exact rationals here; the rounding error of the
  float multiplication by 1000 is not modelled.
\<close>

definition round_half_even :: "rat \<Rightarrow> int" where
  "round_half_even x =
     (let f = \<lfloor>x\<rfloor>; d = x - of_int f
      in if d < 1 / 2 then f else if 1 / 2 < d then f + 1 else if even f then f else f + 1)"

definition py_round2 :: "rat \<Rightarrow> rat" where
  "py_round2 x = of_int (round_half_even (x * 100)) / 100"

section \<open>The structured logging adapter (\<^verbatim>\<open>src/logging/extensions/structured_logging_adapter.py\<close>)\<close>

text \<open>
  A \<^verbatim>\<open>StructuredLoggingAdapter\<close> object: the name of the \<^verbatim>\<open>logging.Logger\<close> it wraps and
  its attributes \<^verbatim>\<open>trace_id\<close>, \<^verbatim>\<open>_sql_logs\<close>, \<^verbatim>\<open>_method\<close>, \<^verbatim>\<open>_path\<close>, \<^verbatim>\<open>_handler\<close> and
  \<^verbatim>\<open>_pending_tx_event\<close>.
\<close>

record adapter =
  logger_name :: string
  trace_id :: string
  sql_logs :: "(string \<times> pyval) list"
  ad_method :: string
  ad_path :: string
  ad_handler :: string
  pending_tx_event :: "string option"

text \<open>
  One call of \<^verbatim>\<open>self.info(message, extra=self.build_extra(...))\<close>: the logger the record
  goes to, its level, and the \<^verbatim>\<open>extra\<close> fields (\<^verbatim>\<open>process\<close> writes the adapter's trace id,
  method, path and handler over the values of these keys). The fields \<^verbatim>\<open>cause\<close>,
  \<^verbatim>\<open>exception\<close> and \<^verbatim>\<open>context\<close> are left out; so is the rendered text block. A time is
  the KST clock reading in whole seconds, the resolution of \<^verbatim>\<open>get_kst_now_str\<close>.
\<close>

record log_event =
  ev_logger :: string
  ev_level :: string
  ev_trace_id :: string
  ev_log_type :: string
  ev_method :: string
  ev_path :: string
  ev_handler :: string
  ev_status_code :: "int option"
  ev_duration_ms :: "rat option"
  ev_time :: int
  ev_log_message :: "string option"
  ev_sql :: "(string \<times> pyval) list option"

section \<open>The per-request logging context (\<^verbatim>\<open>src/logging/context/request_logging_context.py\<close>)\<close>

text \<open>
  The three \<^verbatim>\<open>ContextVar\<close>s of \<^verbatim>\<open>RequestLoggingContext\<close> as one execution unit sees them:
  unset, or holding a reference to an adapter object (a trace id for the third).
\<close>

record request_context =
  logger_var :: "nat option"
  slow_logger_var :: "nat option"
  trace_id_var :: "string option"

definition no_context :: request_context where
  "no_context = \<lparr>logger_var = None, slow_logger_var = None, trace_id_var = None\<rparr>"

text \<open>
  \<^verbatim>\<open>set(logger, trace_id=None)\<close> and \<^verbatim>\<open>set_slow(logger, trace_id=None)\<close>; \<open>fresh\<close> is the UUID
  that \<^verbatim>\<open>uuid.uuid4()\<close> returns when it is called.
\<close>

definition RequestLoggingContext_set :: "nat \<Rightarrow> string option \<Rightarrow> nat \<Rightarrow> request_context \<Rightarrow> request_context" where
  "RequestLoggingContext_set logger tid fresh c =
     (let tid' = (case tid of None \<Rightarrow> uuid_str fresh | Some t \<Rightarrow> t)
      in c\<lparr>logger_var := Some logger, trace_id_var := Some tid'\<rparr>)"

definition RequestLoggingContext_set_slow :: "nat \<Rightarrow> string option \<Rightarrow> nat \<Rightarrow> request_context \<Rightarrow> request_context" where
  "RequestLoggingContext_set_slow logger tid fresh c =
     (let tid' = (case tid of None \<Rightarrow> uuid_str fresh | Some t \<Rightarrow> t)
      in c\<lparr>slow_logger_var := Some logger, trace_id_var := Some tid'\<rparr>)"

definition RequestLoggingContext_get_slow :: "request_context \<Rightarrow> exn + nat" where
  "RequestLoggingContext_get_slow c =
     (case slow_logger_var c of None \<Rightarrow> Inl LookupError | Some r \<Rightarrow> Inr r)"

definition RequestLoggingContext_get :: "request_context \<Rightarrow> exn + nat" where
  "RequestLoggingContext_get c =
     (case logger_var c of None \<Rightarrow> Inl LookupError | Some r \<Rightarrow> Inr r)"

definition RequestLoggingContext_get_trace_id :: "request_context \<Rightarrow> string" where
  "RequestLoggingContext_get_trace_id c =
     (case trace_id_var c of None \<Rightarrow> ''None'' | Some t \<Rightarrow> t)"

text \<open>
  The context part of \<^verbatim>\<open>clear()\<close>: \<open>default_logger\<close> is the reference of the adapter that
  \<^verbatim>\<open>clear\<close> has just built on the \<^verbatim>\<open>default\<close> logger.
\<close>

definition RequestLoggingContext_clear :: "nat \<Rightarrow> nat \<Rightarrow> request_context \<Rightarrow> request_context" where
  "RequestLoggingContext_clear default_logger fresh c =
     c\<lparr>logger_var := Some default_logger, trace_id_var := Some (take 8 (uuid_str fresh))\<rparr>"

section \<open>Execution units and the isolation primitive\<close>

text \<open>
  Modelled from the spec: the scheduling model of section 6 (\<^emph>\<open>one logical request is
  handled by one concurrent unit of execution (thread or cooperative task) at a time;
  multiple requests execute concurrently\<close>) and the isolation primitive of section 4.2
  (\<^emph>\<open>gives each concurrently-executing request its own copy\<close>). Neither is code of the
  repository: the three class attributes of \<^verbatim>\<open>RequestLoggingContext\<close> are \<^verbatim>\<open>ContextVar\<close>
  objects of Python's \<^verbatim>\<open>contextvars\<close>, and the server decides which unit serves a request.
  A runtime holds, for every execution unit (named by a number), that unit's bindings of
  the three variables.
\<close>

type_synonym runtime = "nat \<Rightarrow> request_context"

text \<open>
  Modelled from the spec: \<^verbatim>\<open>ContextVar.set(value)\<close> of the isolation primitive, called by
  execution unit \<open>u\<close>. The variable is named by its field update; the value is bound for the
  calling unit.
\<close>

definition ContextVar_set ::
  "(('a option \<Rightarrow> 'a option) \<Rightarrow> request_context \<Rightarrow> request_context) \<Rightarrow> 'a \<Rightarrow> nat \<Rightarrow> runtime \<Rightarrow> runtime" where
  "ContextVar_set var v u rt = rt(u := var (\<lambda>old. Some v) (rt u))"

text \<open>
  Modelled from the spec: \<^verbatim>\<open>ContextVar.get()\<close> of the isolation primitive, called by
  execution unit \<open>u\<close>. The variable is named by its field; the result is the calling unit's
  binding, and \<^verbatim>\<open>LookupError\<close> when that unit has none.
\<close>

definition ContextVar_get :: "(request_context \<Rightarrow> 'a option) \<Rightarrow> nat \<Rightarrow> runtime \<Rightarrow> exn + 'a" where
  "ContextVar_get var u rt = (case var (rt u) of None \<Rightarrow> Inl LookupError | Some v \<Rightarrow> Inr v)"

text \<open>
  The classmethods of \<^verbatim>\<open>RequestLoggingContext\<close> once more, statement by statement as the
  source calls the primitive on \<^verbatim>\<open>cls._logger_var\<close>, \<^verbatim>\<open>cls._slow_logger_var\<close> and
  \<^verbatim>\<open>cls._trace_id_var\<close>, with the whole runtime as state and the calling execution unit
  \<open>u\<close> explicit. Nothing in these definitions says that a unit is on its own.
\<close>

definition cls_set :: "nat \<Rightarrow> string option \<Rightarrow> nat \<Rightarrow> nat \<Rightarrow> runtime \<Rightarrow> runtime" where
  "cls_set logger tid fresh u rt =
     (let tid' = (case tid of None \<Rightarrow> uuid_str fresh | Some t \<Rightarrow> t);
          rt1 = ContextVar_set logger_var_update logger u rt
      in ContextVar_set trace_id_var_update tid' u rt1)"

definition cls_set_slow :: "nat \<Rightarrow> string option \<Rightarrow> nat \<Rightarrow> nat \<Rightarrow> runtime \<Rightarrow> runtime" where
  "cls_set_slow logger tid fresh u rt =
     (let tid' = (case tid of None \<Rightarrow> uuid_str fresh | Some t \<Rightarrow> t);
          rt1 = ContextVar_set slow_logger_var_update logger u rt
      in ContextVar_set trace_id_var_update tid' u rt1)"

definition cls_get_slow :: "nat \<Rightarrow> runtime \<Rightarrow> exn + nat" where
  "cls_get_slow u rt = ContextVar_get slow_logger_var u rt"

definition cls_get :: "nat \<Rightarrow> runtime \<Rightarrow> exn + nat" where
  "cls_get u rt = ContextVar_get logger_var u rt"

definition cls_get_trace_id :: "nat \<Rightarrow> runtime \<Rightarrow> string" where
  "cls_get_trace_id u rt =
     (case ContextVar_get trace_id_var u rt of
        Inr t \<Rightarrow> t
      | Inl e \<Rightarrow> ''None'')"

definition cls_clear :: "nat \<Rightarrow> nat \<Rightarrow> nat \<Rightarrow> runtime \<Rightarrow> runtime" where
  "cls_clear default_logger fresh u rt =
     (let trace = take 8 (uuid_str fresh);
          rt1 = ContextVar_set logger_var_update default_logger u rt
      in ContextVar_set trace_id_var_update trace u rt1)"

text \<open>
  A call of one of the six classmethods, and what the caller gets back: the three readers
  report what they return or raise.
\<close>

datatype ctx_op =
    OpSet nat "string option" nat
  | OpSetSlow nat "string option" nat
  | OpClear nat nat
  | OpGet
  | OpGetSlow
  | OpGetTraceId

datatype observation =
    Done
  | Logger "exn + nat"
  | TraceId string

text \<open>A call issued by execution unit \<open>u\<close>, on the runtime.\<close>

fun context_step :: "nat \<Rightarrow> ctx_op \<Rightarrow> runtime \<Rightarrow> observation \<times> runtime" where
  "context_step u (OpSet logger tid fresh) rt = (Done, cls_set logger tid fresh u rt)"
| "context_step u (OpSetSlow logger tid fresh) rt = (Done, cls_set_slow logger tid fresh u rt)"
| "context_step u (OpClear logger fresh) rt = (Done, cls_clear logger fresh u rt)"
| "context_step u OpGet rt = (Logger (cls_get u rt), rt)"
| "context_step u OpGetSlow rt = (Logger (cls_get_slow u rt), rt)"
| "context_step u OpGetTraceId rt = (TraceId (cls_get_trace_id u rt), rt)"

text \<open>
  Modelled from the spec: the scheduling model of section 6. The calls of concurrently
  served requests reach the runtime one at a time, in any order; a schedule lists them,
  each with the unit that issues it, and the run tags every result with its unit.
\<close>

fun interleaved_run ::
  "(nat \<times> ctx_op) list \<Rightarrow> runtime \<Rightarrow> (nat \<times> observation) list \<times> runtime" where
  "interleaved_run [] rt = ([], rt)"
| "interleaved_run ((u, op) # rest) rt =
     (let (ob, rt1) = context_step u op rt;
          (obs, rt2) = interleaved_run rest rt1
      in ((u, ob) # obs, rt2))"

definition ops_of :: "nat \<Rightarrow> (nat \<times> ctx_op) list \<Rightarrow> ctx_op list" where
  "ops_of u schedule = map snd (filter (\<lambda>x. fst x = u) schedule)"

definition observed_by :: "nat \<Rightarrow> (nat \<times> observation) list \<Rightarrow> observation list" where
  "observed_by u obs = map snd (filter (\<lambda>x. fst x = u) obs)"

text \<open>
  The same calls made by a single request on the context it sees, with the methods as
  the interceptor and the SQL hooks below use them.
\<close>

fun unit_step :: "ctx_op \<Rightarrow> request_context \<Rightarrow> observation \<times> request_context" where
  "unit_step (OpSet logger tid fresh) c = (Done, RequestLoggingContext_set logger tid fresh c)"
| "unit_step (OpSetSlow logger tid fresh) c = (Done, RequestLoggingContext_set_slow logger tid fresh c)"
| "unit_step (OpClear logger fresh) c = (Done, RequestLoggingContext_clear logger fresh c)"
| "unit_step OpGet c = (Logger (RequestLoggingContext_get c), c)"
| "unit_step OpGetSlow c = (Logger (RequestLoggingContext_get_slow c), c)"
| "unit_step OpGetTraceId c = (TraceId (RequestLoggingContext_get_trace_id c), c)"

fun unit_run :: "ctx_op list \<Rightarrow> request_context \<Rightarrow> observation list \<times> request_context" where
  "unit_run [] c = ([], c)"
| "unit_run (op # ops) c =
     (let (ob, c1) = unit_step op c; (obs, c2) = unit_run ops c1 in (ob # obs, c2))"

section \<open>The state of the logging pipeline\<close>

text \<open>
  What one execution unit's request handling reads and writes: its context, the adapter
  objects (a reference is an index into \<open>heap\<close>, so that the context and a local variable
  can name the same object), the records handed to the logging framework so far, and the
  clock \<^verbatim>\<open>time.time()\<close> in seconds.
\<close>

record log_state =
  ctx :: request_context
  heap :: "adapter list"
  emitted :: "log_event list"
  time_time :: rat

definition deref :: "log_state \<Rightarrow> nat \<Rightarrow> adapter option" where
  "deref s r = (if r < length (heap s) then Some (heap s ! r) else None)"

definition on_adapter :: "nat \<Rightarrow> (adapter \<Rightarrow> adapter) \<Rightarrow> log_state \<Rightarrow> log_state" where
  "on_adapter r f s = (if r < length (heap s) then s\<lparr>heap := (heap s)[r := f (heap s ! r)]\<rparr> else s)"

definition alloc :: "adapter \<Rightarrow> log_state \<Rightarrow> nat \<times> log_state" where
  "alloc a s = (length (heap s), s\<lparr>heap := heap s @ [a]\<rparr>)"

text \<open>\<^verbatim>\<open>TimeProvider.get_kst_now_str()\<close>: the clock plus nine hours, to the second.\<close>

definition get_kst_now_str :: "log_state \<Rightarrow> int" where
  "get_kst_now_str s = \<lfloor>time_time s\<rfloor> + 9 * 3600"

definition StructuredLoggingAdapter :: "string \<Rightarrow> string \<Rightarrow> adapter" where
  "StructuredLoggingAdapter logger tid =
     \<lparr>logger_name = logger, trace_id = tid, sql_logs = [], ad_method = [], ad_path = [],
      ad_handler = [], pending_tx_event = None\<rparr>"

definition clone_with_logger :: "adapter \<Rightarrow> string \<Rightarrow> adapter" where
  "clone_with_logger self new_logger =
     (StructuredLoggingAdapter new_logger (trace_id self))
       \<lparr>ad_method := ad_method self, ad_path := ad_path self, ad_handler := ad_handler self\<rparr>"

definition start_structured :: "string \<Rightarrow> string \<Rightarrow> string \<Rightarrow> adapter \<Rightarrow> adapter" where
  "start_structured method path handler self =
     self\<lparr>ad_method := method, ad_path := path,
          ad_handler := (if handler = [] then ''unnamed_handler'' else handler)\<rparr>"

definition sql_structured :: "string \<Rightarrow> pyval \<Rightarrow> adapter \<Rightarrow> adapter" where
  "sql_structured query params self = self\<lparr>sql_logs := sql_logs self @ [(query, params)]\<rparr>"

definition log_commit :: "adapter \<Rightarrow> adapter" where
  "log_commit self = self\<lparr>pending_tx_event := Some ''COMMIT''\<rparr>"

definition log_rollback :: "adapter \<Rightarrow> adapter" where
  "log_rollback self = self\<lparr>pending_tx_event := Some ''ROLLBACK''\<rparr>"

definition build_extra ::
  "adapter \<Rightarrow> string \<Rightarrow> string \<Rightarrow> int option \<Rightarrow> rat option \<Rightarrow> (string \<times> pyval) list option \<Rightarrow>
     string option \<Rightarrow> int \<Rightarrow> log_event" where
  "build_extra self level log_type status_code duration_ms sql message time =
     \<lparr>ev_logger = logger_name self, ev_level = level, ev_trace_id = trace_id self,
      ev_log_type = log_type, ev_method = ad_method self, ev_path = ad_path self,
      ev_handler = ad_handler self, ev_status_code = status_code,
      ev_duration_ms = duration_ms, ev_time = time, ev_log_message = message, ev_sql = sql\<rparr>"

definition info :: "log_event \<Rightarrow> log_state \<Rightarrow> log_state" where
  "info ev s = s\<lparr>emitted := emitted s @ [ev]\<rparr>"

text \<open>\<^verbatim>\<open>slow_sql_structured(query, params, elapsed)\<close> only reads the adapter.\<close>

definition slow_sql_structured :: "string \<Rightarrow> pyval \<Rightarrow> rat \<Rightarrow> adapter \<Rightarrow> log_state \<Rightarrow> log_state" where
  "slow_sql_structured query params elapsed self s =
     info (build_extra self ''INFO'' ''SLOW_QUERY'' None (Some elapsed) (Some [(query, params)]) None
             (get_kst_now_str s)) s"

text \<open>
  \<^verbatim>\<open>debug_structured(message, context, method, path, handler)\<close>: the record is handed over
  by \<^verbatim>\<open>self.debug\<close>. The method, path and handler passed in are merged into \<^verbatim>\<open>extra\<close>, and
  \<^verbatim>\<open>process\<close> then writes the adapter's own values over them, so they do not reach the
  record.
\<close>

definition debug :: "log_event \<Rightarrow> log_state \<Rightarrow> log_state" where
  "debug ev s = s\<lparr>emitted := emitted s @ [ev]\<rparr>"

definition debug_structured ::
  "string \<Rightarrow> string \<Rightarrow> string \<Rightarrow> string \<Rightarrow> adapter \<Rightarrow> log_state \<Rightarrow> log_state" where
  "debug_structured message method path handler self s =
     debug (build_extra self ''DEBUG'' ''DEBUG_STRUCTURED'' None None None (Some message)
              (get_kst_now_str s)) s"

text \<open>
  \<^verbatim>\<open>end_structured(status_code, duration_ms)\<close> on the adapter at reference \<open>r\<close>: the summary
  record (which the source tags \<^verbatim>\<open>START\<close>) with the whole SQL buffer, then the pending
  transaction marker, if any, which is reset. The emoji in front of the marker's message
  is left out.
\<close>

definition end_structured :: "int \<Rightarrow> rat \<Rightarrow> nat \<Rightarrow> log_state \<Rightarrow> log_state" where
  "end_structured status_code duration_ms r s =
     (case deref s r of
        None \<Rightarrow> s
      | Some self \<Rightarrow>
          (let now = get_kst_now_str s;
               s1 = info (build_extra self ''INFO'' ''START'' (Some status_code) (Some duration_ms)
                            (Some (sql_logs self)) None now) s
           in case pending_tx_event self of
                None \<Rightarrow> s1
              | Some ev \<Rightarrow>
                  if ev = [] then s1
                  else
                    (let message = (if ev = ''COMMIT'' then ''COMMIT'' else ''ROLLBACK'');
                         s2 = info (build_extra self ''INFO'' ev None None None (Some message)
                                      (get_kst_now_str s1)) s1
                     in on_adapter r (\<lambda>a. a\<lparr>pending_tx_event := None\<rparr>) s2)))"

section \<open>The SQL observation hooks (\<^verbatim>\<open>src/logging/extensions/sql_query_logging.py\<close>)\<close>

record settings =
  SLOW_QUERY_THRESHOLD :: rat

text \<open>The defaults of \<^verbatim>\<open>src/core/settings.py\<close>.\<close>

definition default_settings :: settings where
  "default_settings = \<lparr>SLOW_QUERY_THRESHOLD = 2\<rparr>"

record SqlQueryLogging =
  slow_threshold :: rat

definition SqlQueryLogging_init :: "settings \<Rightarrow> SqlQueryLogging" where
  "SqlQueryLogging_init st = \<lparr>slow_threshold = SLOW_QUERY_THRESHOLD st\<rparr>"

text \<open>SQLAlchemy's execution context of one statement, with the attribute the hooks add.\<close>

record execution_context =
  query_start_time :: "rat option"

text \<open>\<^verbatim>\<open>for param_set in params\<close>: a list yields its elements, a str its characters.\<close>

fun py_iter :: "pyval \<Rightarrow> exn + pyval list" where
  "py_iter (PyList xs) = Inr xs"
| "py_iter (PyStr s) = Inr (map (\<lambda>c. PyStr [c]) s)"
| "py_iter v = Inl TypeError"

text \<open>
  \<^verbatim>\<open>before_cursor_execute\<close>: returns the exception that leaves the hook, if any, the
  execution context and the state. Only \<^verbatim>\<open>LookupError\<close> is caught.
\<close>

definition before_cursor_execute ::
  "string \<Rightarrow> pyval \<Rightarrow> execution_context \<Rightarrow> bool \<Rightarrow> log_state \<Rightarrow>
     exn option \<times> execution_context \<times> log_state" where
  "before_cursor_execute statement params exec_ctx executemany s =
     (let context1 = exec_ctx\<lparr>query_start_time := Some (time_time s)\<rparr>
      in case RequestLoggingContext_get (ctx s) of
           Inl e \<Rightarrow> (if e = LookupError then None else Some e, context1, s)
         | Inr logger \<Rightarrow>
             if executemany then
               (case py_iter params of
                  Inl e \<Rightarrow> (if e = LookupError then None else Some e, context1, s)
                | Inr psets \<Rightarrow>
                    (None, context1,
                     foldl (\<lambda>s1 param_set. on_adapter logger (sql_structured statement param_set) s1)
                       s psets))
             else (None, context1, on_adapter logger (sql_structured statement params) s))"

text \<open>
  \<^verbatim>\<open>_log_slow_query\<close>: through the context's slow logger, or through an adapter built on
  the \<^verbatim>\<open>slow_query\<close> logger with the trace id \<^verbatim>\<open>unknown\<close> when the lookup fails.
\<close>

definition log_slow_query :: "string \<Rightarrow> pyval \<Rightarrow> rat \<Rightarrow> log_state \<Rightarrow> log_state" where
  "log_slow_query statement params duration_ms s =
     (case RequestLoggingContext_get_slow (ctx s) of
        Inr slow_logger \<Rightarrow>
          (case deref s slow_logger of
             Some self \<Rightarrow> slow_sql_structured statement params duration_ms self s
           | None \<Rightarrow> s)
      | Inl e \<Rightarrow>
          slow_sql_structured statement params duration_ms
            (StructuredLoggingAdapter ''slow_query'' ''unknown'') s)"

text \<open>
  \<^verbatim>\<open>after_cursor_execute\<close>: the elapsed time is the clock minus the recorded start (minus
  the clock itself when no start was recorded).
\<close>

definition elapsed :: "execution_context \<Rightarrow> log_state \<Rightarrow> rat" where
  "elapsed exec_ctx s =
     time_time s - (case query_start_time exec_ctx of None \<Rightarrow> time_time s | Some t \<Rightarrow> t)"

definition after_cursor_execute ::
  "SqlQueryLogging \<Rightarrow> string \<Rightarrow> pyval \<Rightarrow> execution_context \<Rightarrow> log_state \<Rightarrow> log_state" where
  "after_cursor_execute self statement params exec_ctx s =
     (let duration = elapsed exec_ctx s
      in if slow_threshold self \<le> duration
         then log_slow_query statement params (py_round2 (duration * 1000)) s
         else s)"

definition log_tx_event :: "string \<Rightarrow> log_state \<Rightarrow> log_state" where
  "log_tx_event event_type s =
     (case RequestLoggingContext_get (ctx s) of
        Inl e \<Rightarrow> s
      | Inr logger \<Rightarrow>
          if event_type = ''commit'' then on_adapter logger log_commit s
          else if event_type = ''rollback'' then on_adapter logger log_rollback s
          else s)"

definition after_commit :: "log_state \<Rightarrow> log_state" where
  "after_commit s = log_tx_event ''commit'' s"

definition after_rollback :: "log_state \<Rightarrow> log_state" where
  "after_rollback s = log_tx_event ''rollback'' s"

section \<open>The request-logging interceptor (\<^verbatim>\<open>src/logging/logging_route_for_request_response.py\<close>)\<close>

record request =
  req_method :: string
  req_path :: string

record response =
  status_code :: int
  headers :: "string \<Rightarrow> string option"

text \<open>
  What running an endpoint does to the logging pipeline: it executes statements (each
  bracketed by the two cursor hooks and taking some time), its session commits or rolls
  back, time passes, and it may do what the endpoint \<^verbatim>\<open>test_debug\<close> of
  \<^verbatim>\<open>src/routers/v1/test_router.py\<close> does: draw a UUID, build an adapter of its own with
  the UUID's text as trace id, install it in the context with \<^verbatim>\<open>RequestLoggingContext.set\<close>
  and log a debug record through it (\<^verbatim>\<open>test_debug\<close> sets the logger's level to
  \<^verbatim>\<open>DEBUG\<close> first). Then it returns a response or raises.
\<close>

datatype effect =
    Execute string pyval bool rat
  | SessionCommit
  | SessionRollback
  | Work rat
  | OwnAdapterDebug string nat nat string string string string

record endpoint =
  endpoint_name :: "string option"
  effects :: "effect list"
  outcome :: "exn + response"

fun run_effect :: "SqlQueryLogging \<Rightarrow> effect \<Rightarrow> log_state \<Rightarrow> exn option \<times> log_state" where
  "run_effect hooks (Execute statement params executemany secs) s =
     (case before_cursor_execute statement params \<lparr>query_start_time = None\<rparr> executemany s of
        (Some e, exec_ctx, s1) \<Rightarrow> (Some e, s1)
      | (None, exec_ctx, s1) \<Rightarrow>
          (None, after_cursor_execute hooks statement params exec_ctx
                   (s1\<lparr>time_time := time_time s1 + secs\<rparr>)))"
| "run_effect hooks SessionCommit s = (None, after_commit s)"
| "run_effect hooks SessionRollback s = (None, after_rollback s)"
| "run_effect hooks (Work secs) s = (None, s\<lparr>time_time := time_time s + secs\<rparr>)"
| "run_effect hooks (OwnAdapterDebug name u fresh message method path handler) s =
     (let trace = uuid_str u;
          (logger, s1) = alloc (StructuredLoggingAdapter name trace) s;
          s2 = s1\<lparr>ctx := RequestLoggingContext_set logger None fresh (ctx s1)\<rparr>
      in case deref s2 logger of
           None \<Rightarrow> (None, s2)
         | Some self \<Rightarrow> (None, debug_structured message method path handler self s2))"

fun run_effects :: "SqlQueryLogging \<Rightarrow> effect list \<Rightarrow> log_state \<Rightarrow> exn option \<times> log_state" where
  "run_effects hooks [] s = (None, s)"
| "run_effects hooks (e # es) s =
     (case run_effect hooks e s of
        (Some exc, s1) \<Rightarrow> (Some exc, s1)
      | (None, s1) \<Rightarrow> run_effects hooks es s1)"

definition original_handler :: "SqlQueryLogging \<Rightarrow> endpoint \<Rightarrow> log_state \<Rightarrow> (exn + response) \<times> log_state" where
  "original_handler hooks ep s =
     (case run_effects hooks (effects ep) s of
        (Some exc, s1) \<Rightarrow> (Inl exc, s1)
      | (None, s1) \<Rightarrow> (outcome ep, s1))"

text \<open>
  \<^verbatim>\<open>LoggingRouterProvider\<close> (\<^verbatim>\<open>src/provider/logging_router_provider.py\<close>). The router
  domains are the directories of \<^verbatim>\<open>src/routers/v1\<close>; the regular expression
  \<^verbatim>\<open>^/v1/([a-zA-Z0-9_-]+)\<close> takes the longest run of allowed characters after the prefix.
  A lambda has no \<^verbatim>\<open>def\<close> line to read a name from.
\<close>

definition router_domains :: "string list" where
  "router_domains = [''user'', ''auth'', ''employee'', ''rank'', ''position'', ''organization'']"

definition domain_char :: "char \<Rightarrow> bool" where
  "domain_char c =
     (let n = (of_char c :: nat)
      in (97 \<le> n \<and> n \<le> 122) \<or> (65 \<le> n \<and> n \<le> 90) \<or> (48 \<le> n \<and> n \<le> 57) \<or> n = 95 \<or> n = 45)"

definition removesuffix_history :: "string \<Rightarrow> string option" where
  "removesuffix_history raw =
     (if length ''_history'' \<le> length raw \<and> drop (length raw - length ''_history'') raw = ''_history''
      then Some (take (length raw - length ''_history'') raw) else None)"

definition extract_domain_from_path :: "string \<Rightarrow> string" where
  "extract_domain_from_path path =
     (if take 4 path = ''/v1/'' \<and> takeWhile domain_char (drop 4 path) \<noteq> [] then
        (let raw = map (\<lambda>c. if c = CHR ''-'' then CHR ''_'' else c) (takeWhile domain_char (drop 4 path))
         in case removesuffix_history raw of
              Some base \<Rightarrow>
                if base \<in> set router_domains then raw
                else if raw \<in> set router_domains then raw else ''general''
            | None \<Rightarrow> if raw \<in> set router_domains then raw else ''general'')
      else ''general'')"

definition resolve_handler_name :: "endpoint \<Rightarrow> string" where
  "resolve_handler_name ep =
     (case endpoint_name ep of
        Some name \<Rightarrow> if name \<noteq> ''<lambda>'' then name else ''unnamed_handler''
      | None \<Rightarrow> ''unnamed_handler'')"

text \<open>
  The part of \<^verbatim>\<open>custom_handler\<close> before the endpoint runs: it returns the references of
  the primary and the slow adapter, the short trace id and the state. \<open>u1\<close>, \<open>u2\<close> and \<open>u3\<close>
  are the UUIDs drawn by \<^verbatim>\<open>custom_handler\<close>, by \<^verbatim>\<open>set\<close> and by \<^verbatim>\<open>set_slow\<close>, in this order.
\<close>

definition request_setup ::
  "endpoint \<Rightarrow> request \<Rightarrow> nat \<Rightarrow> nat \<Rightarrow> nat \<Rightarrow> log_state \<Rightarrow> nat \<times> nat \<times> string \<times> log_state" where
  "request_setup ep req u1 u2 u3 s =
     (let tid = take 8 (uuid_str u1);
          domain = extract_domain_from_path (req_path req);
          handler_name = resolve_handler_name ep;
          primary = StructuredLoggingAdapter domain tid;
          (logger, s1) = alloc primary s;
          (slow_logger, s2) = alloc (clone_with_logger primary ''slow_query'') s1;
          s3 = s2\<lparr>ctx := RequestLoggingContext_set logger None u2 (ctx s2)\<rparr>;
          s4 = s3\<lparr>ctx := RequestLoggingContext_set_slow slow_logger None u3 (ctx s3)\<rparr>;
          s5 = on_adapter logger (start_structured (req_method req) (req_path req) handler_name) s4;
          s6 = on_adapter slow_logger (start_structured (req_method req) (req_path req) handler_name) s5
      in (logger, slow_logger, tid, s6))"

definition custom_handler ::
  "SqlQueryLogging \<Rightarrow> endpoint \<Rightarrow> request \<Rightarrow> nat \<Rightarrow> nat \<Rightarrow> nat \<Rightarrow> log_state \<Rightarrow>
     (exn + response) \<times> log_state" where
  "custom_handler hooks ep req u1 u2 u3 s =
     (let start_time = time_time s;
          (logger, slow_logger, tid, s1) = request_setup ep req u1 u2 u3 s
      in case original_handler hooks ep s1 of
           (Inl exc, s2) \<Rightarrow> (Inl exc, s2)
         | (Inr resp, s2) \<Rightarrow>
             (let resp1 = resp\<lparr>headers := (headers resp)(''X-Trace-Id'' \<mapsto> tid)\<rparr>;
                  duration = (time_time s2 - start_time) * 1000
              in (Inr resp1,
                  end_structured (status_code resp1) (py_round2 duration) logger s2)))"

section \<open>Sample calls\<close>

text \<open>
  A world without rows and calls, a session handle, a service object, and three service
  methods declared as \<^verbatim>\<open>def f(self, db, employee_seq)\<close>: one returns a value, one raises
  a business exception, one returns the stored employee with a changed name.
\<close>

definition empty_world :: world where
  "empty_world = \<lparr>rows = (\<lambda>entity seq. PyNone), calls = [], utc_now = 0\<rparr>"

definition session :: pyval where
  "session = PyOpaque ''<Session>''"

definition service :: pyval where
  "service = PyOpaque ''<EmployeeService>''"

definition returns_seven :: pyfunc where
  "returns_seven = def_function [''self'', ''db'', ''employee_seq'']
     (\<lambda>args kwargs w. (Inr (PyInt 7), w\<lparr>utc_now := 5\<rparr>))"


text \<open>
  An employee as the repository returns it, a method that creates it, and one that deletes
  it. The stored object carries the ORM bookkeeping attribute and a relationship list.
\<close>

definition employee_12 :: pyval where
  "employee_12 = PyObj ''<Employee 12>''
     [(''status'', PyStr ''ACTIVE''), (''name'', PyStr ''Kim''),
      (''hire_date'', PyOpaque ''2024-03-01''), (''seq'', PyInt 12),
      (''_sa_instance_state'', PyOpaque ''<InstanceState>''), (''children'', PyList []),
      (''deleted_at'', PyNone)]"

definition create_employee :: pyfunc where
  "create_employee = def_function [''self'', ''db'', ''employee_create_request'']
     (\<lambda>args kwargs w. (Inr employee_12, w\<lparr>utc_now := 100\<rparr>))"



section \<open>The invariant of a request in progress\<close>

text \<open>
  While the endpoint of a request runs, the two adapters that the interceptor built (at
  references \<open>r1\<close> and \<open>r2\<close>) keep the request's trace id, the slow logger of the context
  stays the second one, every record emitted since the request began (from position \<open>n\<close>
  on) carries the trace id unless it is a debug record of the endpoint, and the trace id
  stored in the context is a full UUID text.
\<close>

definition request_inv :: "nat \<Rightarrow> nat \<Rightarrow> string \<Rightarrow> nat \<Rightarrow> log_state \<Rightarrow> bool" where
  "request_inv r1 r2 tid n s =
     (r1 < length (heap s) \<and> r2 < length (heap s) \<and>
      trace_id (heap s ! r1) = tid \<and> trace_id (heap s ! r2) = tid \<and>
      slow_logger_var (ctx s) = Some r2 \<and>
      n \<le> length (emitted s) \<and>
      list_all (\<lambda>ev. ev_log_type ev = ''DEBUG_STRUCTURED'' \<or> ev_trace_id ev = tid)
        (drop n (emitted s)) \<and>
      (case trace_id_var (ctx s) of None \<Rightarrow> False | Some t \<Rightarrow> length t = 36))"

section \<open>Sample states of the logging pipeline\<close>

text \<open>
  The hooks with the default threshold; a state outside any request; and a state in which
  a request for \<^verbatim>\<open>/v1/employee/12\<close> is being served.
\<close>

definition default_hooks :: SqlQueryLogging where
  "default_hooks = SqlQueryLogging_init default_settings"

definition idle_state :: log_state where
  "idle_state = \<lparr>ctx = no_context, heap = [], emitted = [], time_time = 1000\<rparr>"

definition serving_state :: log_state where
  "serving_state =
     \<lparr>ctx = \<lparr>logger_var = Some 0, slow_logger_var = Some 1,
             trace_id_var = Some ''123e4567-e89b-42d3-a456-426614174000''\<rparr>,
      heap = [start_structured ''GET'' ''/v1/employee/12'' ''get_employee''
                (StructuredLoggingAdapter ''employee'' ''9f8e7d6c''),
              start_structured ''GET'' ''/v1/employee/12'' ''get_employee''
                (StructuredLoggingAdapter ''slow_query'' ''9f8e7d6c'')],
      emitted = [], time_time = 1000\<rparr>"

definition get_employee :: endpoint where
  "get_employee =
     \<lparr>endpoint_name = Some ''get_employee'',
      effects = [Execute ''SELECT * FROM employee WHERE seq = %s'' (PyList [PyInt 12]) False (5 / 2),
                 SessionCommit],
      outcome = Inr \<lparr>status_code = 200, headers = Map.empty\<rparr>\<rparr>"

definition get_employee_request :: request where
  "get_employee_request = \<lparr>req_method = ''GET'', req_path = ''/v1/employee/12''\<rparr>"

text \<open>
  The endpoint \<^verbatim>\<open>test_debug\<close>, mounted at \<^verbatim>\<open>/v1/test/test-debug\<close> by
  \<^verbatim>\<open>src/routers/v1/router_binder.py\<close>, with a message in ASCII.
\<close>

definition uuid_d :: nat where
  "uuid_d = 0x5b6c7d8e9fa04b1c8d2e3f4a5b6c7d8e"

definition uuid_e :: nat where
  "uuid_e = 0x1111222233334444a555666677778888"

definition test_debug :: endpoint where
  "test_debug =
     \<lparr>endpoint_name = Some ''test_debug'',
      effects = [OwnAdapterDebug ''rank'' uuid_d uuid_e ''test log'' ''GET''
                   ''/v1/test/test-debug'' ''test_debug''],
      outcome = Inr \<lparr>status_code = 200, headers = Map.empty\<rparr>\<rparr>"

definition test_debug_request :: request where
  "test_debug_request = \<lparr>req_method = ''GET'', req_path = ''/v1/test/test-debug''\<rparr>"

text \<open>The UUIDs drawn while a request is set up.\<close>

definition uuid_a :: nat where
  "uuid_a = 0x9f8e7d6c000040008000000000000001"

definition uuid_b :: nat where
  "uuid_b = 0x123e4567e89b42d3a456426614174000"

definition uuid_c :: nat where
  "uuid_c = 0x0a1b2c3d4e5f40718293a4b5c6d7e8f9"

text \<open>
  Two requests served at the same time by units 1 and 2, their calls interleaved, and a
  unit 3 that serves no request.
\<close>

definition two_requests :: "(nat \<times> ctx_op) list" where
  "two_requests =
     [(1, OpSet 0 None uuid_b), (2, OpSet 2 None uuid_d),
      (1, OpSetSlow 1 None uuid_c), (2, OpSetSlow 3 None uuid_e),
      (1, OpGet), (2, OpGet), (2, OpGetSlow), (1, OpGetSlow),
      (1, OpGetTraceId), (2, OpGetTraceId), (3, OpGet), (3, OpGetTraceId)]"
section \<open>Properties of the transactional decorator\<close>


lemma bind_self_only: "bind_partial returns_seven [service] [] = Inr [(''self'', service)]"
  by (simp add: returns_seven_def def_function_def plain_bind_partial_def)




section \<open>Properties of the audit-history decorator\<close>

lemma clean_dict_keeps_seq:
  "map_of attrs ''seq'' = Some v \<Longrightarrow> clean_dict attrs \<noteq> []"
proof -
  assume "map_of attrs ''seq'' = Some v"
  then have "(''seq'', v) \<in> set attrs" by (rule map_of_SomeD)
  then have "(''seq'', v) \<in> set (clean_dict attrs)"
    by (simp add: clean_dict_def exclude_fields_def)
  then show ?thesis by auto
qed

lemma dunder_dict_Inr: "dunder_dict v = Inr d \<Longrightarrow> \<exists>r. v = PyObj r d"
  by (cases v) auto


text \<open>
  Claim C4. A call to a function wrapped by the audit-history decorator whose arguments
  bind to the signature but bind no session to \<^verbatim>\<open>db\<close> (it is missing or \<^verbatim>\<open>None\<close>) raises
  \<^verbatim>\<open>ValueError\<close> and leaves the world as it was, whatever the body of the wrapped function
  is: the wrapped function has not run, and no repository lookup, history write or session
  operation has been recorded.
\<close>

theorem History_requires_session:
  assumes "bind_partial func args kwargs = Inr bound"
      and "dict_get bound ''db'' = PyNone"
  shows "call (History entity action (func\<lparr>call := body\<rparr>)) args kwargs w = (Inl ValueError, w)"
  using assms by (simp add: History_def)

theorem History_requires_session_witness:
  "bind_partial returns_seven [service] [] = Inr [(''self'', service)]
   \<and> dict_get [(''self'', service)] ''db'' = PyNone
   \<and> call (History ''employee'' ''DELETE'' returns_seven) [service] [] empty_world
       = (Inl ValueError, empty_world)
   \<and> calls empty_world = []"
proof -
  have d: "dict_get [(''self'', service)] ''db'' = PyNone"
    by (simp add: dict_get_def)
  have f: "returns_seven\<lparr>call := call returns_seven\<rparr> = returns_seven" by simp
  from History_requires_session [OF bind_self_only d, of "''employee''" "''DELETE''" "call returns_seven" empty_world]
  have "call (History ''employee'' ''DELETE'' returns_seven) [service] [] empty_world
       = (Inl ValueError, empty_world)"
    by (simp only: f)
  then show ?thesis using bind_self_only d by (simp add: empty_world_def)
qed

text \<open>
  Claim C5. When a call audited with action \<^verbatim>\<open>INSERT\<close> returns, the wrapped function ran on
  the world the wrapper received (no before-state was fetched), its result is an instance
  with an attribute \<^verbatim>\<open>seq\<close>, and the one call recorded after those of the wrapped function
  saves an audit record whose target identifier is that \<^verbatim>\<open>seq\<close>, whose before-value is
  null and whose after-value is the JSON text (keys sorted, other values replaced by their
  \<^verbatim>\<open>str()\<close>) of the result's attributes without \<^verbatim>\<open>_sa_instance_state\<close> and \<^verbatim>\<open>children\<close>.
\<close>

theorem History_insert_record:
  assumes "call (History entity ''INSERT'' func) args kwargs w = (Inr result, w')"
  shows "\<exists>bound r attrs target w1.
           bind_partial func args kwargs = Inr bound \<and>
           call func args kwargs w = (Inr result, w1) \<and>
           result = PyObj r attrs \<and> map_of attrs ''seq'' = Some target \<and>
           w' = w1\<lparr>calls := calls w1 @ [SaveHistory entity (dict_get bound ''db'')
                  \<lparr>entity_seq = target, action_type = ''INSERT'', before_value = None,
                   after_value = Some (json_dumps (clean_dict attrs)),
                   username = dict_get kwargs ''username'',
                   created_at = utc_now w1 + 9 * 3600\<rparr>]\<rparr>"
  using assms
  apply (simp add: History_def fetch_before_def after_state_def save_history_def Let_def
          dumps_or_none_def get_kst_now_def
        split: sum.splits if_splits prod.splits pyval.splits option.splits)
  apply (auto dest!: dunder_dict_Inr simp: clean_dict_keeps_seq split: option.splits)
  done

lemma create_employee_run:
  "fst (call (History ''employee'' ''INSERT'' create_employee)
          [service, session, PyObj ''<EmployeeCreateRequestDto>'' [(''name'', PyStr ''Kim'')]] [] empty_world)
     = Inr employee_12
   \<and> calls (snd (call (History ''employee'' ''INSERT'' create_employee)
          [service, session, PyObj ''<EmployeeCreateRequestDto>'' [(''name'', PyStr ''Kim'')]] [] empty_world))
     = [SaveHistory ''employee'' session
          \<lparr>entity_seq = PyInt 12, action_type = ''INSERT'', before_value = None,
           after_value = Some ''{\"deleted_at\": null, \"hire_date\": \"2024-03-01\", \"name\": \"Kim\", \"seq\": 12, \"status\": \"ACTIVE\"}'',
           username = PyNone, created_at = 32500\<rparr>]"
  by code_simp

theorem History_insert_record_witness:
  "fst (call (History ''employee'' ''INSERT'' create_employee)
          [service, session, PyObj ''<EmployeeCreateRequestDto>'' [(''name'', PyStr ''Kim'')]] [] empty_world)
     = Inr employee_12
   \<and> calls (snd (call (History ''employee'' ''INSERT'' create_employee)
          [service, session, PyObj ''<EmployeeCreateRequestDto>'' [(''name'', PyStr ''Kim'')]] [] empty_world))
     = [SaveHistory ''employee'' session
          \<lparr>entity_seq = PyInt 12, action_type = ''INSERT'', before_value = None,
           after_value = Some ''{\"deleted_at\": null, \"hire_date\": \"2024-03-01\", \"name\": \"Kim\", \"seq\": 12, \"status\": \"ACTIVE\"}'',
           username = PyNone, created_at = 32500\<rparr>]
   \<and> (\<exists>bound r attrs target w1.
           bind_partial create_employee
             [service, session, PyObj ''<EmployeeCreateRequestDto>'' [(''name'', PyStr ''Kim'')]] [] = Inr bound \<and>
           call create_employee
             [service, session, PyObj ''<EmployeeCreateRequestDto>'' [(''name'', PyStr ''Kim'')]] [] empty_world
             = (Inr employee_12, w1) \<and>
           employee_12 = PyObj r attrs \<and> map_of attrs ''seq'' = Some target \<and>
           snd (call (History ''employee'' ''INSERT'' create_employee)
              [service, session, PyObj ''<EmployeeCreateRequestDto>'' [(''name'', PyStr ''Kim'')]] [] empty_world)
             = w1\<lparr>calls := calls w1 @ [SaveHistory ''employee'' (dict_get bound ''db'')
                  \<lparr>entity_seq = target, action_type = ''INSERT'', before_value = None,
                   after_value = Some (json_dumps (clean_dict attrs)),
                   username = dict_get [] ''username'',
                   created_at = utc_now w1 + 9 * 3600\<rparr>]\<rparr>)"
proof -
  let ?run = "call (History ''employee'' ''INSERT'' create_employee)
          [service, session, PyObj ''<EmployeeCreateRequestDto>'' [(''name'', PyStr ''Kim'')]] [] empty_world"
  have h: "?run = (Inr employee_12, snd ?run)"
    using create_employee_run by (metis prod.collapse)
  show ?thesis
    using create_employee_run History_insert_record [OF h] by blast
qed




section \<open>Properties of the identifier extraction\<close>

text \<open>
  Claim C7, as amended. Let \<open>kw\<close> be the keyword argument named \<^verbatim>\<open>{entity}_seq\<close>
  (\<^verbatim>\<open>None\<close> when there is none), \<open>pos\<close> the positional argument at the index of the
  declared parameter of that name, if both exist, and \<open>scan\<close> the attribute of that name of
  the first positional argument that has one. The steps are tried in this order, and the
  first \<^emph>\<open>truthy\<close> value wins: \<open>kw\<close> when it is truthy; else \<open>pos\<close> when it is truthy; else
  the value of \<open>scan\<close>, whatever it is. When the scan finds nothing either, the result is
  the falsy value found last, and \<^verbatim>\<open>None\<close> when no step found any value.
\<close>

theorem extract_entity_seq_order:
  assumes "key = entity @ ''_seq''"
      and "kw = dict_get kwargs key"
      and "pos = (if key \<in> set names \<and> index_of names key < length args
                  then Some (args ! index_of names key) else None)"
      and "scan = map_option (\<lambda>a. attr_value a key) (find (\<lambda>a. hasattr a key) args)"
  shows "(truthy kw \<longrightarrow> extract_entity_seq entity args kwargs names = kw)
       \<and> (\<not> truthy kw \<and> pos = Some p \<and> truthy p \<longrightarrow>
            extract_entity_seq entity args kwargs names = p)
       \<and> (\<not> truthy kw \<and> (\<forall>p. pos = Some p \<longrightarrow> \<not> truthy p) \<and> scan = Some v \<longrightarrow>
            extract_entity_seq entity args kwargs names = v)
       \<and> (\<not> truthy kw \<and> (\<forall>p. pos = Some p \<longrightarrow> \<not> truthy p) \<and> scan = None \<longrightarrow>
            extract_entity_seq entity args kwargs names = (case pos of Some p \<Rightarrow> p | None \<Rightarrow> kw))
       \<and> (map_of kwargs key = None \<and> pos = None \<and> scan = None \<longrightarrow>
            extract_entity_seq entity args kwargs names = PyNone)"
  using assms
  by (auto simp: extract_entity_seq_def Let_def dict_get_def split: option.splits if_splits)

theorem extract_entity_seq_order_witness:
  "extract_entity_seq ''employee'' [service, session, PyInt 4] [(''employee_seq'', PyInt 9)]
      [''self'', ''db'', ''employee_seq''] = PyInt 9
   \<and> extract_entity_seq ''employee'' [service, session, PyInt 4] [] [''self'', ''db'', ''employee_seq'']
      = PyInt 4
   \<and> extract_entity_seq ''organization''
        [service, session, PyObj ''<OrganizationMoveRequestDto>''
           [(''organization_seq'', PyInt 5), (''new_parent_seq'', PyInt 2)]]
        [] [''self'', ''db'', ''organization_move_request''] = PyInt 5
   \<and> extract_entity_seq ''employee'' [service, session, PyInt 0] [] [''self'', ''db'', ''employee_seq'']
      = PyInt 0
   \<and> extract_entity_seq ''employee'' [service, session, PyObj ''<EmployeeCreateRequestDto>'' [(''name'', PyStr ''Kim'')]]
        [] [''self'', ''db'', ''employee_create_request''] = PyNone"
proof -
  have a: "extract_entity_seq ''employee'' [service, session, PyInt 4] [(''employee_seq'', PyInt 9)]
      [''self'', ''db'', ''employee_seq''] = PyInt 9"
    using extract_entity_seq_order [of "''employee_seq''" "''employee''" "PyInt 9"
        "[(''employee_seq'', PyInt 9)]" "Some (PyInt 4)" "[''self'', ''db'', ''employee_seq'']"
        "[service, session, PyInt 4]" None]
    by (simp add: dict_get_def index_of_def service_def session_def)
  have b: "extract_entity_seq ''employee'' [service, session, PyInt 4] [] [''self'', ''db'', ''employee_seq'']
      = PyInt 4"
    using extract_entity_seq_order [of "''employee_seq''" "''employee''" PyNone
        "[]" "Some (PyInt 4)" "[''self'', ''db'', ''employee_seq'']"
        "[service, session, PyInt 4]" None "PyInt 4"]
    by (simp add: dict_get_def index_of_def service_def session_def)
  have c: "extract_entity_seq ''organization''
        [service, session, PyObj ''<OrganizationMoveRequestDto>''
           [(''organization_seq'', PyInt 5), (''new_parent_seq'', PyInt 2)]]
        [] [''self'', ''db'', ''organization_move_request''] = PyInt 5"
    using extract_entity_seq_order [of "''organization_seq''" "''organization''" PyNone
        "[]" None "[''self'', ''db'', ''organization_move_request'']"
        "[service, session, PyObj ''<OrganizationMoveRequestDto>''
           [(''organization_seq'', PyInt 5), (''new_parent_seq'', PyInt 2)]]" "Some (PyInt 5)" _ "PyInt 5"]
    by (simp add: dict_get_def index_of_def service_def session_def)
  have d: "extract_entity_seq ''employee'' [service, session, PyInt 0] [] [''self'', ''db'', ''employee_seq'']
      = PyInt 0"
    using extract_entity_seq_order [of "''employee_seq''" "''employee''" PyNone
        "[]" "Some (PyInt 0)" "[''self'', ''db'', ''employee_seq'']"
        "[service, session, PyInt 0]" None]
    by (simp add: dict_get_def index_of_def service_def session_def)
  have e: "extract_entity_seq ''employee'' [service, session, PyObj ''<EmployeeCreateRequestDto>'' [(''name'', PyStr ''Kim'')]]
        [] [''self'', ''db'', ''employee_create_request''] = PyNone"
    using extract_entity_seq_order [of "''employee_seq''" "''employee''" PyNone
        "[]" None "[''self'', ''db'', ''employee_create_request'']"
        "[service, session, PyObj ''<EmployeeCreateRequestDto>'' [(''name'', PyStr ''Kim'')]]" None]
    by (simp add: dict_get_def index_of_def service_def session_def)
  show ?thesis using a b c d e by simp
qed

text \<open>
  The claim as stated fails, because a match whose value is falsy does not win. With the
  identifier 0 at the declared position and a request object exposing
  \<^verbatim>\<open>organization_seq = 5\<close> the result is 5, not the positional 0; and with the keyword
  \<^verbatim>\<open>organization_seq = 0\<close> and the same request object passed positionally the result is
  again 5, not the keyword's 0.
\<close>

theorem extract_entity_seq_first_match_counterexample:
  "extract_entity_seq ''organization''
     [PyOpaque ''<OrganizationService>'', PyOpaque ''<Session>'', PyInt 0,
      PyObj ''<OrganizationMoveRequestDto>'' [(''organization_seq'', PyInt 5), (''new_parent_seq'', PyInt 2)]]
     []
     [''self'', ''db'', ''organization_seq'', ''request''] = PyInt 5
   \<and> extract_entity_seq ''organization''
     [PyOpaque ''<OrganizationService>'', PyOpaque ''<Session>'',
      PyObj ''<OrganizationMoveRequestDto>'' [(''organization_seq'', PyInt 5), (''new_parent_seq'', PyInt 2)]]
     [(''organization_seq'', PyInt 0)]
     [''self'', ''db'', ''request'', ''organization_seq''] = PyInt 5"
  by (simp add: extract_entity_seq_def Let_def dict_get_def index_of_def)

section \<open>Facts about trace identifiers and rounding\<close>

lemma length_hex32: "length (hex32 n) = 32"
  by (simp add: hex32_def)

lemma length_uuid_str: "length (uuid_str u) = 36"
  by (simp add: uuid_str_def Let_def length_hex32)

lemma upt_32: "[0..<32] = [0, 1, 2, 3, 4, 5, 6, 7, 8, 9, 10, 11, 12, 13, 14, 15, 16, 17, 18, 19,
    20, 21, 22, 23, 24, 25, 26, 27, 28, 29, 30, 31 :: nat]"
  by code_simp

lemma uuid_a_str: "uuid_str uuid_a = ''9f8e7d6c-0000-4000-8000-000000000001''"
  by (simp add: uuid_str_def uuid_a_def hex32_def hex_digit_def upt_32)

lemma uuid_b_str: "uuid_str uuid_b = ''123e4567-e89b-42d3-a456-426614174000''"
  by (simp add: uuid_str_def uuid_b_def hex32_def hex_digit_def upt_32)

lemma uuid_c_str: "uuid_str uuid_c = ''0a1b2c3d-4e5f-4071-8293-a4b5c6d7e8f9''"
  by (simp add: uuid_str_def uuid_c_def hex32_def hex_digit_def upt_32)

lemma uuid_d_str: "uuid_str uuid_d = ''5b6c7d8e-9fa0-4b1c-8d2e-3f4a5b6c7d8e''"
  by (simp add: uuid_str_def uuid_d_def hex32_def hex_digit_def upt_32)

lemma uuid_e_str: "uuid_str uuid_e = ''11112222-3333-4444-a555-666677778888''"
  by (simp add: uuid_str_def uuid_e_def hex32_def hex_digit_def upt_32)

lemma round_half_even_near: "\<bar>of_int (round_half_even y) - y\<bar> \<le> 1 / 2"
proof -
  have a: "of_int \<lfloor>y\<rfloor> \<le> y" by simp
  have b: "y < of_int \<lfloor>y\<rfloor> + 1" by linarith
  show ?thesis
    using a b by (auto simp: round_half_even_def Let_def abs_le_iff)
qed

lemma py_round2_hundredths: "py_round2 x * 100 = of_int (round_half_even (x * 100))"
  by (simp add: py_round2_def)

lemma py_round2_near: "\<bar>py_round2 x - x\<bar> \<le> 1 / 200"
proof -
  define r where "r = (of_int (round_half_even (x * 100)) :: rat)"
  have n: "\<bar>r - x * 100\<bar> \<le> 1 / 2"
    unfolding r_def by (rule round_half_even_near)
  have "py_round2 x - x = (r - x * 100) / 100"
    by (simp add: py_round2_def r_def diff_divide_distrib)
  then have "\<bar>py_round2 x - x\<bar> = \<bar>(r - x * 100) / 100\<bar>"
    by (simp only:)
  also have "\<dots> = \<bar>r - x * 100\<bar> / 100"
    by (simp add: abs_divide)
  finally have eq: "\<bar>py_round2 x - x\<bar> = \<bar>r - x * 100\<bar> / 100" .
  show ?thesis unfolding eq using n by simp
qed

lemma round_2000: "py_round2 2000 = 2000"
  by code_simp

lemma round_2500: "py_round2 2500 = 2500"
  by code_simp

lemma round_3000: "py_round2 3000 = 3000"
  by code_simp

lemma round_0: "py_round2 0 = 0"
  by code_simp

section \<open>The request invariant is kept by everything an endpoint does\<close>

lemma inv_on_adapter:
  assumes "request_inv r1 r2 tid n s" and "\<And>a. trace_id (f a) = trace_id a"
  shows "request_inv r1 r2 tid n (on_adapter r f s)"
  using assms by (auto simp: request_inv_def on_adapter_def nth_list_update)

lemma inv_foldl_sql:
  "request_inv r1 r2 tid n s \<Longrightarrow>
   request_inv r1 r2 tid n
     (foldl (\<lambda>s1 p. on_adapter r (sql_structured statement p) s1) s ps)"
proof (induction ps arbitrary: s)
  case Nil
  then show ?case by simp
next
  case (Cons p ps)
  have "request_inv r1 r2 tid n (on_adapter r (sql_structured statement p) s)"
    by (rule inv_on_adapter [OF Cons.prems]) (simp add: sql_structured_def)
  from Cons.IH [OF this] show ?case by simp
qed

lemma inv_before:
  assumes "request_inv r1 r2 tid n s"
      and "before_cursor_execute statement params exec_ctx many s = (err, exec_ctx1, s1)"
  shows "request_inv r1 r2 tid n s1"
proof (cases "logger_var (ctx s)")
  case None
  with assms show ?thesis
    by (simp add: before_cursor_execute_def Let_def RequestLoggingContext_get_def)
next
  case (Some r)
  show ?thesis
  proof (cases many)
    case False
    have "request_inv r1 r2 tid n (on_adapter r (sql_structured statement params) s)"
      by (rule inv_on_adapter [OF assms(1)]) (simp add: sql_structured_def)
    with assms(2) Some False show ?thesis
      by (simp add: before_cursor_execute_def Let_def RequestLoggingContext_get_def)
  next
    case True
    show ?thesis
    proof (cases "py_iter params")
      case (Inl e)
      with assms Some True show ?thesis
        by (simp add: before_cursor_execute_def Let_def RequestLoggingContext_get_def)
    next
      case (Inr ps)
      with assms(2) Some True
      have "s1 = foldl (\<lambda>s1 p. on_adapter r (sql_structured statement p) s1) s ps"
        by (simp add: before_cursor_execute_def Let_def RequestLoggingContext_get_def)
      then show ?thesis using inv_foldl_sql [OF assms(1)] by simp
    qed
  qed
qed

lemma inv_clock:
  "request_inv r1 r2 tid n s \<Longrightarrow> request_inv r1 r2 tid n (s\<lparr>time_time := t\<rparr>)"
  by (simp add: request_inv_def)

lemma inv_after:
  assumes "request_inv r1 r2 tid n s"
  shows "request_inv r1 r2 tid n (after_cursor_execute hooks statement params exec_ctx s)"
  using assms
  by (auto simp: request_inv_def after_cursor_execute_def Let_def log_slow_query_def
        RequestLoggingContext_get_slow_def deref_def slow_sql_structured_def info_def
        build_extra_def)

lemma inv_tx:
  assumes "request_inv r1 r2 tid n s"
  shows "request_inv r1 r2 tid n (log_tx_event kind s)"
proof (cases "logger_var (ctx s)")
  case None
  with assms show ?thesis by (simp add: log_tx_event_def RequestLoggingContext_get_def)
next
  case (Some r)
  have a: "request_inv r1 r2 tid n (on_adapter r log_commit s)"
    by (rule inv_on_adapter [OF assms]) (simp add: log_commit_def)
  have b: "request_inv r1 r2 tid n (on_adapter r log_rollback s)"
    by (rule inv_on_adapter [OF assms]) (simp add: log_rollback_def)
  from Some a b assms show ?thesis
    by (simp add: log_tx_event_def RequestLoggingContext_get_def)
qed

lemma inv_own_adapter:
  assumes "request_inv r1 r2 tid n s"
      and "run_effect hooks (OwnAdapterDebug name u fresh message method path handler) s = (err, s1)"
  shows "request_inv r1 r2 tid n s1"
  using assms
  by (auto simp: request_inv_def alloc_def RequestLoggingContext_set_def Let_def nth_append
        length_uuid_str deref_def debug_structured_def debug_def build_extra_def)

lemma inv_run_effect:
  assumes "request_inv r1 r2 tid n s" and "run_effect hooks e s = (err, s1)"
  shows "request_inv r1 r2 tid n s1"
proof (cases e)
  case (Execute statement params many secs)
  obtain err0 c0 s0 where b: "before_cursor_execute statement params \<lparr>query_start_time = None\<rparr> many s = (err0, c0, s0)"
    by (cases "before_cursor_execute statement params \<lparr>query_start_time = None\<rparr> many s") auto
  have i0: "request_inv r1 r2 tid n s0" by (rule inv_before [OF assms(1) b])
  show ?thesis
  proof (cases err0)
    case None
    with assms(2) Execute b
    have "s1 = after_cursor_execute hooks statement params c0 (s0\<lparr>time_time := time_time s0 + secs\<rparr>)"
      by simp
    then show ?thesis using inv_after [OF inv_clock [OF i0]] by simp
  next
    case (Some x)
    with assms(2) Execute b have "s1 = s0" by simp
    with i0 show ?thesis by simp
  qed
next
  case SessionCommit
  with assms show ?thesis by (auto simp: after_commit_def inv_tx)
next
  case SessionRollback
  with assms show ?thesis by (auto simp: after_rollback_def inv_tx)
next
  case (Work secs)
  with assms show ?thesis by (auto simp: inv_clock)
next
  case (OwnAdapterDebug name u fresh msg m p h)
  with assms show ?thesis using inv_own_adapter by blast
qed

lemma inv_run_effects:
  "request_inv r1 r2 tid n s \<Longrightarrow> run_effects hooks es s = (err, s1) \<Longrightarrow>
   request_inv r1 r2 tid n s1"
proof (induction es arbitrary: s)
  case Nil
  then show ?case by simp
next
  case (Cons e es)
  obtain err0 s0 where r: "run_effect hooks e s = (err0, s0)"
    by (cases "run_effect hooks e s")
  have i0: "request_inv r1 r2 tid n s0" by (rule inv_run_effect [OF Cons.prems(1) r])
  show ?case
  proof (cases err0)
    case None
    with Cons.prems(2) r have "run_effects hooks es s0 = (err, s1)" by simp
    from Cons.IH [OF i0 this] show ?thesis .
  next
    case (Some x)
    with Cons.prems(2) r have "s1 = s0" by simp
    with i0 show ?thesis by simp
  qed
qed

lemma inv_original_handler:
  assumes "request_inv r1 r2 tid n s" and "original_handler hooks ep s = (res, s1)"
  shows "request_inv r1 r2 tid n s1"
proof -
  obtain err0 s0 where r: "run_effects hooks (effects ep) s = (err0, s0)"
    by (cases "run_effects hooks (effects ep) s")
  have i0: "request_inv r1 r2 tid n s0" by (rule inv_run_effects [OF assms(1) r])
  from assms(2) r have "s1 = s0"
    by (simp add: original_handler_def split: option.splits)
  with i0 show ?thesis by simp
qed

lemma inv_setup:
  assumes "request_setup ep req u1 u2 u3 s = (logger, slow_logger, tid, s1)"
  shows "logger = length (heap s) \<and> slow_logger = Suc (length (heap s)) \<and>
         tid = take 8 (uuid_str u1) \<and> request_inv logger slow_logger tid (length (emitted s)) s1"
  using assms
  by (auto simp: request_setup_def Let_def alloc_def on_adapter_def request_inv_def
        RequestLoggingContext_set_def RequestLoggingContext_set_slow_def start_structured_def
        clone_with_logger_def StructuredLoggingAdapter_def length_uuid_str nth_append)

lemma end_structured_events:
  assumes "r < length (heap s)"
  shows "\<exists>evs. emitted (end_structured status ms r s) =
           emitted s @ build_extra (heap s ! r) ''INFO'' ''START'' (Some status) (Some ms)
                         (Some (sql_logs (heap s ! r))) None (get_kst_now_str s) # evs
         \<and> list_all (\<lambda>ev. ev_trace_id ev = trace_id (heap s ! r)) evs
         \<and> length (heap (end_structured status ms r s)) = length (heap s)
         \<and> (\<forall>k < length (heap s).
              trace_id (heap (end_structured status ms r s) ! k) = trace_id (heap s ! k) \<and>
              sql_logs (heap (end_structured status ms r s) ! k) = sql_logs (heap s ! k))
         \<and> ctx (end_structured status ms r s) = ctx s"
  using assms
  by (auto simp: end_structured_def deref_def Let_def info_def on_adapter_def build_extra_def
        nth_list_update split: option.splits)

lemma get_trace_id_inv:
  assumes "request_inv r1 r2 tid n s" and "length tid = 8"
  shows "length (RequestLoggingContext_get_trace_id (ctx s)) = 36
         \<and> RequestLoggingContext_get_trace_id (ctx s) \<noteq> tid"
  using assms
  by (auto simp: request_inv_def RequestLoggingContext_get_trace_id_def split: option.splits)

lemma log_slow_query_emits:
  assumes "\<forall>r. slow_logger_var (ctx s) = Some r \<longrightarrow> r < length (heap s)"
  shows "log_slow_query statement params ms s =
     s\<lparr>emitted := emitted s @
        [build_extra (case slow_logger_var (ctx s) of
                        Some r \<Rightarrow> heap s ! r
                      | None \<Rightarrow> StructuredLoggingAdapter ''slow_query'' ''unknown'')
           ''INFO'' ''SLOW_QUERY'' None (Some ms) (Some [(statement, params)]) None (get_kst_now_str s)]\<rparr>"
  using assms
  by (simp add: log_slow_query_def RequestLoggingContext_get_slow_def deref_def
        slow_sql_structured_def info_def split: option.splits)

section \<open>Two sample requests, evaluated\<close>

lemma employee_domain: "extract_domain_from_path ''/v1/employee/12'' = ''employee''"
  by code_simp

lemma test_domain: "extract_domain_from_path ''/v1/test/test-debug'' = ''general''"
  by code_simp

lemma get_employee_setup:
  "request_setup get_employee get_employee_request uuid_a uuid_b uuid_c idle_state
     = (0, 1, ''9f8e7d6c'',
        serving_state\<lparr>ctx := (ctx serving_state)\<lparr>trace_id_var := Some (uuid_str uuid_c)\<rparr>\<rparr>)"
  by (simp add: request_setup_def Let_def alloc_def on_adapter_def idle_state_def
        serving_state_def get_employee_def get_employee_request_def no_context_def
        RequestLoggingContext_set_def RequestLoggingContext_set_slow_def
        resolve_handler_name_def clone_with_logger_def StructuredLoggingAdapter_def
        start_structured_def uuid_a_str employee_domain)

lemma test_debug_setup:
  "request_setup test_debug test_debug_request uuid_a uuid_b uuid_c idle_state
     = (0, 1, ''9f8e7d6c'',
        \<lparr>ctx = \<lparr>logger_var = Some 0, slow_logger_var = Some 1,
                trace_id_var = Some (uuid_str uuid_c)\<rparr>,
         heap = [start_structured ''GET'' ''/v1/test/test-debug'' ''test_debug''
                   (StructuredLoggingAdapter ''general'' ''9f8e7d6c''),
                 start_structured ''GET'' ''/v1/test/test-debug'' ''test_debug''
                   (StructuredLoggingAdapter ''slow_query'' ''9f8e7d6c'')],
         emitted = [], time_time = 1000\<rparr>)"
  by (simp add: request_setup_def Let_def alloc_def on_adapter_def idle_state_def
        test_debug_def test_debug_request_def no_context_def
        RequestLoggingContext_set_def RequestLoggingContext_set_slow_def
        resolve_handler_name_def clone_with_logger_def StructuredLoggingAdapter_def
        start_structured_def uuid_a_str test_domain)

lemmas pipeline_defs =
  original_handler_def Let_def default_hooks_def SqlQueryLogging_init_def
  default_settings_def before_cursor_execute_def after_cursor_execute_def
  elapsed_def log_slow_query_def slow_sql_structured_def RequestLoggingContext_get_def
  RequestLoggingContext_get_slow_def RequestLoggingContext_get_trace_id_def
  RequestLoggingContext_set_def alloc_def debug_structured_def debug_def
  after_commit_def log_tx_event_def log_commit_def sql_structured_def on_adapter_def deref_def
  end_structured_def info_def build_extra_def get_kst_now_str_def serving_state_def
  idle_state_def start_structured_def StructuredLoggingAdapter_def

lemma get_employee_served:
  "fst (custom_handler default_hooks get_employee get_employee_request uuid_a uuid_b uuid_c idle_state)
     = Inr \<lparr>status_code = 200, headers = [''X-Trace-Id'' \<mapsto> ''9f8e7d6c'']\<rparr>"
  apply (simp only: custom_handler_def get_employee_setup Let_def prod.case)
  apply (simp add: pipeline_defs get_employee_def)
  done

lemma get_employee_events:
  "map (\<lambda>ev. (ev_logger ev, ev_log_type ev, ev_trace_id ev, ev_duration_ms ev, ev_status_code ev, ev_sql ev))
     (emitted (snd (custom_handler default_hooks get_employee get_employee_request
                      uuid_a uuid_b uuid_c idle_state)))
   = [(''slow_query'', ''SLOW_QUERY'', ''9f8e7d6c'', Some 2500, None,
         Some [(''SELECT * FROM employee WHERE seq = %s'', PyList [PyInt 12])]),
      (''employee'', ''START'', ''9f8e7d6c'', Some 2500, Some 200,
         Some [(''SELECT * FROM employee WHERE seq = %s'', PyList [PyInt 12])]),
      (''employee'', ''COMMIT'', ''9f8e7d6c'', None, None, None)]"
  apply (simp only: custom_handler_def get_employee_setup Let_def prod.case)
  apply (simp add: pipeline_defs get_employee_def round_2500)
  done

lemma get_employee_context:
  "RequestLoggingContext_get_trace_id
     (ctx (snd (custom_handler default_hooks get_employee get_employee_request
                  uuid_a uuid_b uuid_c idle_state)))
   = ''0a1b2c3d-4e5f-4071-8293-a4b5c6d7e8f9''"
  apply (simp only: custom_handler_def get_employee_setup Let_def prod.case)
  apply (simp add: pipeline_defs get_employee_def uuid_c_str)
  done

lemma test_debug_served:
  "fst (custom_handler default_hooks test_debug test_debug_request uuid_a uuid_b uuid_c idle_state)
     = Inr \<lparr>status_code = 200, headers = [''X-Trace-Id'' \<mapsto> ''9f8e7d6c'']\<rparr>"
  apply (simp only: custom_handler_def test_debug_setup Let_def prod.case)
  apply (simp add: pipeline_defs test_debug_def)
  done

lemma test_debug_events:
  "map (\<lambda>ev. (ev_logger ev, ev_level ev, ev_log_type ev, ev_trace_id ev, ev_log_message ev))
     (emitted (snd (custom_handler default_hooks test_debug test_debug_request
                      uuid_a uuid_b uuid_c idle_state)))
   = [(''rank'', ''DEBUG'', ''DEBUG_STRUCTURED'', ''5b6c7d8e-9fa0-4b1c-8d2e-3f4a5b6c7d8e'',
         Some ''test log''),
      (''general'', ''INFO'', ''START'', ''9f8e7d6c'', None)]"
  apply (simp only: custom_handler_def test_debug_setup Let_def prod.case)
  apply (simp add: pipeline_defs test_debug_def uuid_d_str round_0)
  done

lemma test_debug_context:
  "RequestLoggingContext_get_trace_id
     (ctx (snd (custom_handler default_hooks test_debug test_debug_request
                  uuid_a uuid_b uuid_c idle_state)))
   = ''11112222-3333-4444-a555-666677778888''"
  apply (simp only: custom_handler_def test_debug_setup Let_def prod.case)
  apply (simp add: pipeline_defs test_debug_def uuid_e_str)
  done

section \<open>Claim C1: one trace id for the response header and the request's summary record\<close>

text \<open>
  Claim C1. Whenever the interceptor handles a request and the endpoint returns a
  response, the response carries the short trace id drawn at request entry (the first
  eight characters of the UUID text) in its \<^verbatim>\<open>X-Trace-Id\<close> header. The records emitted
  for the request contain the summary record of \<^verbatim>\<open>end_structured\<close> (tagged \<^verbatim>\<open>START\<close> by the
  source), which carries the same trace id, the response's status code and, as its SQL
  list, the whole SQL buffer of the primary adapter. The primary and the slow adapter
  built for the request still hold that trace id when the request ends, and every record
  emitted for the request by the interceptor or by the SQL hooks carries it; the only
  records that may carry another trace id are the debug records that an endpoint logs
  through an adapter of its own. This holds for every endpoint, every initial state and
  every choice of the three UUIDs.
\<close>

theorem trace_id_consistent:
  assumes "custom_handler hooks ep req u1 u2 u3 s = (Inr resp, s')"
      and "tid = take 8 (uuid_str u1)"
      and "request_events = drop (length (emitted s)) (emitted s')"
      and "primary = heap s' ! length (heap s)"
      and "slow = heap s' ! Suc (length (heap s))"
  shows "headers resp ''X-Trace-Id'' = Some tid
       \<and> (\<exists>end_event \<in> set request_events.
             ev_log_type end_event = ''START'' \<and>
             ev_trace_id end_event = tid \<and>
             ev_status_code end_event = Some (status_code resp) \<and>
             ev_sql end_event = Some (sql_logs primary))
       \<and> (\<forall>ev \<in> set request_events.
             ev_log_type ev \<noteq> ''DEBUG_STRUCTURED'' \<longrightarrow> ev_trace_id ev = tid)
       \<and> trace_id primary = tid \<and> trace_id slow = tid"
proof -
  obtain logger slow_logger t s1 where su: "request_setup ep req u1 u2 u3 s = (logger, slow_logger, t, s1)"
    by (cases "request_setup ep req u1 u2 u3 s") auto
  from inv_setup [OF su]
  have lg: "logger = length (heap s)" and sl: "slow_logger = Suc (length (heap s))"
    and tt: "t = tid" and i1: "request_inv logger slow_logger tid (length (emitted s)) s1"
    using assms(2) by auto
  obtain res s2 where oh: "original_handler hooks ep s1 = (res, s2)"
    by (cases "original_handler hooks ep s1")
  have i2: "request_inv logger slow_logger tid (length (emitted s)) s2"
    by (rule inv_original_handler [OF i1 oh])
  from assms(1) su oh tt obtain resp0 where res: "res = Inr resp0"
    and resp: "resp = resp0\<lparr>headers := (headers resp0)(''X-Trace-Id'' \<mapsto> tid)\<rparr>"
    and s': "s' = end_structured (status_code resp)
                     (py_round2 ((time_time s2 - time_time s) * 1000)) logger s2"
    by (cases res) (auto simp: custom_handler_def Let_def)
  from i2 have r1: "logger < length (heap s2)" and r2: "slow_logger < length (heap s2)"
    and t1: "trace_id (heap s2 ! logger) = tid" and t2: "trace_id (heap s2 ! slow_logger) = tid"
    and n: "length (emitted s) \<le> length (emitted s2)"
    and old: "list_all (\<lambda>ev. ev_log_type ev = ''DEBUG_STRUCTURED'' \<or> ev_trace_id ev = tid)
                (drop (length (emitted s)) (emitted s2))"
    by (simp_all add: request_inv_def)
  from end_structured_events [OF r1, of "status_code resp"
      "py_round2 ((time_time s2 - time_time s) * 1000)"]
  obtain evs where
    em: "emitted s' = emitted s2 @ build_extra (heap s2 ! logger) ''INFO'' ''START''
           (Some (status_code resp)) (Some (py_round2 ((time_time s2 - time_time s) * 1000)))
           (Some (sql_logs (heap s2 ! logger))) None (get_kst_now_str s2) # evs"
    and ev: "list_all (\<lambda>ev. ev_trace_id ev = trace_id (heap s2 ! logger)) evs"
    and hp: "\<forall>k < length (heap s2).
              trace_id (heap s' ! k) = trace_id (heap s2 ! k) \<and>
              sql_logs (heap s' ! k) = sql_logs (heap s2 ! k)"
    unfolding s' by blast
  let ?end = "build_extra (heap s2 ! logger) ''INFO'' ''START''
           (Some (status_code resp)) (Some (py_round2 ((time_time s2 - time_time s) * 1000)))
           (Some (sql_logs (heap s2 ! logger))) None (get_kst_now_str s2)"
  have re: "request_events = drop (length (emitted s)) (emitted s2) @ ?end # evs"
    using assms(3) em n by simp
  have p: "trace_id primary = tid" "sql_logs primary = sql_logs (heap s2 ! logger)"
    using hp r1 t1 assms(4) lg by simp_all
  have q: "trace_id slow = tid"
    using hp r2 t2 assms(5) sl by simp
  have a: "headers resp ''X-Trace-Id'' = Some tid" using resp by simp
  have b: "\<forall>ev \<in> set request_events.
             ev_log_type ev \<noteq> ''DEBUG_STRUCTURED'' \<longrightarrow> ev_trace_id ev = tid"
    using re old ev t1 by (auto simp: list_all_iff build_extra_def)
  have c: "?end \<in> set request_events" using re by simp
  have d: "ev_log_type ?end = ''START'' \<and> ev_trace_id ?end = tid \<and>
           ev_status_code ?end = Some (status_code resp) \<and>
           ev_sql ?end = Some (sql_logs primary)"
    using p t1 by (simp add: build_extra_def)
  from a b c d p q show ?thesis by blast
qed

text \<open>
  The theorem at a request \<^verbatim>\<open>GET /v1/employee/12\<close> whose endpoint runs one statement for
  2.5 seconds and commits: the header, the slow-query record, the summary record and the
  commit marker all carry \<^verbatim>\<open>9f8e7d6c\<close>.
\<close>

theorem trace_id_consistent_witness:
  "fst (custom_handler default_hooks get_employee get_employee_request uuid_a uuid_b uuid_c idle_state)
     = Inr \<lparr>status_code = 200, headers = [''X-Trace-Id'' \<mapsto> ''9f8e7d6c'']\<rparr>
   \<and> take 8 (uuid_str uuid_a) = ''9f8e7d6c''
   \<and> map (\<lambda>ev. (ev_logger ev, ev_log_type ev, ev_trace_id ev, ev_duration_ms ev, ev_status_code ev, ev_sql ev))
        (emitted (snd (custom_handler default_hooks get_employee get_employee_request
                         uuid_a uuid_b uuid_c idle_state)))
      = [(''slow_query'', ''SLOW_QUERY'', ''9f8e7d6c'', Some 2500, None,
            Some [(''SELECT * FROM employee WHERE seq = %s'', PyList [PyInt 12])]),
         (''employee'', ''START'', ''9f8e7d6c'', Some 2500, Some 200,
            Some [(''SELECT * FROM employee WHERE seq = %s'', PyList [PyInt 12])]),
         (''employee'', ''COMMIT'', ''9f8e7d6c'', None, None, None)]
   \<and> trace_id (heap (snd (custom_handler default_hooks get_employee get_employee_request
                            uuid_a uuid_b uuid_c idle_state)) ! 0) = ''9f8e7d6c''
   \<and> trace_id (heap (snd (custom_handler default_hooks get_employee get_employee_request
                            uuid_a uuid_b uuid_c idle_state)) ! 1) = ''9f8e7d6c''
   \<and> sql_logs (heap (snd (custom_handler default_hooks get_employee get_employee_request
                            uuid_a uuid_b uuid_c idle_state)) ! 0)
      = [(''SELECT * FROM employee WHERE seq = %s'', PyList [PyInt 12])]"
proof -
  let ?run = "custom_handler default_hooks get_employee get_employee_request uuid_a uuid_b uuid_c idle_state"
  let ?resp = "\<lparr>status_code = 200, headers = [''X-Trace-Id'' \<mapsto> ''9f8e7d6c'']\<rparr>"
  have h: "?run = (Inr ?resp, snd ?run)"
    using get_employee_served by (metis prod.collapse)
  have t: "take 8 (uuid_str uuid_a) = ''9f8e7d6c''" by (simp add: uuid_a_str)
  have z: "length (heap idle_state) = 0" "length (emitted idle_state) = 0"
    by (simp_all add: idle_state_def)
  from trace_id_consistent [OF h refl refl refl refl]
  have c: "trace_id (heap (snd ?run) ! 0) = ''9f8e7d6c''"
          "trace_id (heap (snd ?run) ! 1) = ''9f8e7d6c''"
          "\<exists>end_event \<in> set (emitted (snd ?run)).
             ev_log_type end_event = ''START'' \<and> ev_trace_id end_event = ''9f8e7d6c'' \<and>
             ev_status_code end_event = Some 200 \<and>
             ev_sql end_event = Some (sql_logs (heap (snd ?run) ! 0))"
    by (simp_all add: t z)
  from c(3) have s: "sql_logs (heap (snd ?run) ! 0)
      = [(''SELECT * FROM employee WHERE seq = %s'', PyList [PyInt 12])]"
  proof
    fix ev
    assume a: "ev \<in> set (emitted (snd ?run))"
       and b: "ev_log_type ev = ''START'' \<and> ev_trace_id ev = ''9f8e7d6c'' \<and>
               ev_status_code ev = Some 200 \<and>
               ev_sql ev = Some (sql_logs (heap (snd ?run) ! 0))"
    from a have "(ev_logger ev, ev_log_type ev, ev_trace_id ev, ev_duration_ms ev, ev_status_code ev, ev_sql ev)
        \<in> set (map (\<lambda>ev. (ev_logger ev, ev_log_type ev, ev_trace_id ev, ev_duration_ms ev, ev_status_code ev, ev_sql ev))
                 (emitted (snd ?run)))"
      by force
    with b show ?thesis unfolding get_employee_events by auto
  qed
  show ?thesis using get_employee_served t get_employee_events c(1,2) s by simp
qed

text \<open>
  A request whose log output does not carry the header's trace id throughout:
  \<^verbatim>\<open>GET /v1/test/test-debug\<close> returns 200 with \<^verbatim>\<open>X-Trace-Id: 9f8e7d6c\<close>, and the first of
  its two records, the debug record that \<^verbatim>\<open>test_debug\<close> logs through its own adapter on
  the \<^verbatim>\<open>rank\<close> logger, carries the endpoint's own UUID.
\<close>

theorem trace_id_own_adapter_counterexample:
  "fst (custom_handler default_hooks test_debug test_debug_request uuid_a uuid_b uuid_c idle_state)
     = Inr \<lparr>status_code = 200, headers = [''X-Trace-Id'' \<mapsto> ''9f8e7d6c'']\<rparr>
   \<and> map (\<lambda>ev. (ev_logger ev, ev_level ev, ev_log_type ev, ev_trace_id ev, ev_log_message ev))
        (emitted (snd (custom_handler default_hooks test_debug test_debug_request
                         uuid_a uuid_b uuid_c idle_state)))
      = [(''rank'', ''DEBUG'', ''DEBUG_STRUCTURED'', ''5b6c7d8e-9fa0-4b1c-8d2e-3f4a5b6c7d8e'',
            Some ''test log''),
         (''general'', ''INFO'', ''START'', ''9f8e7d6c'', None)]
   \<and> \<not> list_all (\<lambda>ev. ev_trace_id ev = ''9f8e7d6c'')
          (emitted (snd (custom_handler default_hooks test_debug test_debug_request
                           uuid_a uuid_b uuid_c idle_state)))"
proof -
  let ?run = "custom_handler default_hooks test_debug test_debug_request uuid_a uuid_b uuid_c idle_state"
  have "map ev_trace_id (emitted (snd ?run))
          = map (\<lambda>x. fst (snd (snd (snd x))))
              (map (\<lambda>ev. (ev_logger ev, ev_level ev, ev_log_type ev, ev_trace_id ev, ev_log_message ev))
                 (emitted (snd ?run)))"
    by (simp add: comp_def)
  then have "map ev_trace_id (emitted (snd ?run))
          = [''5b6c7d8e-9fa0-4b1c-8d2e-3f4a5b6c7d8e'', ''9f8e7d6c'']"
    unfolding test_debug_events by simp
  then have "\<not> list_all (\<lambda>t. t = ''9f8e7d6c'') (map ev_trace_id (emitted (snd ?run)))"
    by simp
  then have "\<not> list_all (\<lambda>ev. ev_trace_id ev = ''9f8e7d6c'') (emitted (snd ?run))"
    by (simp add: list_all_iff)
  then show ?thesis using test_debug_served test_debug_events by simp
qed

section \<open>Claim C2: the context of one execution unit is invisible to every other\<close>

text \<open>
  Every classmethod, called by a unit, reads the bindings of that unit only and changes
  the bindings of that unit only, and what it does there is what the method does to the
  one context a request sees.
\<close>

lemma context_step_unit:
  "context_step u op rt = (fst (unit_step op (rt u)), rt(u := snd (unit_step op (rt u))))"
  by (cases op)
     (simp_all add: cls_set_def cls_set_slow_def cls_clear_def cls_get_def cls_get_slow_def
        cls_get_trace_id_def ContextVar_set_def ContextVar_get_def Let_def
        RequestLoggingContext_set_def RequestLoggingContext_set_slow_def
        RequestLoggingContext_clear_def RequestLoggingContext_get_def
        RequestLoggingContext_get_slow_def RequestLoggingContext_get_trace_id_def
        split: option.splits)

lemma interleaved_run_unit:
  "observed_by u (fst (interleaved_run schedule rt)) = fst (unit_run (ops_of u schedule) (rt u))
   \<and> snd (interleaved_run schedule rt) u = snd (unit_run (ops_of u schedule) (rt u))"
proof (induction schedule arbitrary: rt)
  case Nil
  show ?case by (simp add: observed_by_def ops_of_def)
next
  case (Cons x rest)
  obtain v op where x: "x = (v, op)" by (cases x)
  obtain ob c1 where st: "unit_step op (rt v) = (ob, c1)" by (cases "unit_step op (rt v)")
  have cs: "context_step v op rt = (ob, rt(v := c1))"
    by (simp add: context_step_unit st)
  obtain obs rt2 where r: "interleaved_run rest (rt(v := c1)) = (obs, rt2)"
    by (cases "interleaved_run rest (rt(v := c1))")
  from Cons.IH [of "rt(v := c1)"]
  have ih: "observed_by u obs = fst (unit_run (ops_of u rest) ((rt(v := c1)) u))"
           "rt2 u = snd (unit_run (ops_of u rest) ((rt(v := c1)) u))"
    by (simp_all only: r fst_conv snd_conv)
  show ?case
  proof (cases "v = u")
    case True
    with x st cs r ih show ?thesis
      by (simp add: observed_by_def ops_of_def split: prod.splits)
  next
    case False
    with x st cs r ih show ?thesis
      by (simp add: observed_by_def ops_of_def split: prod.splits)
  qed
qed

lemma ops_of_others: "\<forall>x \<in> set others. fst x \<noteq> u \<Longrightarrow> ops_of u others = []"
  by (induction others) (auto simp: ops_of_def)

text \<open>
  Claim C2. \<^verbatim>\<open>RequestLoggingContext\<close> keeps its logger, slow logger and trace id in three
  context variables, and each method touches them through the isolation primitive only.
  On the runtime that gives every execution unit its own bindings:
  \<^item> a call issued by unit \<open>u\<close> leaves the bindings of every other unit \<open>v\<close> as they were;
  \<^item> what a call issued by \<open>u\<close> returns or raises, and what it leaves in the bindings of
    \<open>u\<close>, depends on the bindings of \<open>u\<close> alone;
  \<^item> in any interleaving of the calls of any number of units, the results that the calls
    of \<open>u\<close> get, and the bindings \<open>u\<close> ends with, are exactly those of the calls of \<open>u\<close> made
    alone, in the same order, on the context \<open>u\<close> started with;
  \<^item> after \<open>u\<close> has called \<^verbatim>\<open>set\<close> or \<^verbatim>\<open>set_slow\<close>, whatever calls other units make
    afterwards, \<^verbatim>\<open>get()\<close>, \<^verbatim>\<open>get_slow()\<close> and \<^verbatim>\<open>get_trace_id()\<close> called by \<open>u\<close> return what
    \<open>u\<close> itself installed.
  So no call of a request observes a value that another request has set.
\<close>

theorem context_isolation:
  "(v \<noteq> u \<longrightarrow> snd (context_step u op rt) v = rt v)
   \<and> (rt u = rt' u \<longrightarrow>
        fst (context_step u op rt) = fst (context_step u op rt') \<and>
        snd (context_step u op rt) u = snd (context_step u op rt') u)
   \<and> observed_by u (fst (interleaved_run schedule rt)) = fst (unit_run (ops_of u schedule) (rt u))
   \<and> snd (interleaved_run schedule rt) u = snd (unit_run (ops_of u schedule) (rt u))
   \<and> ((\<forall>x \<in> set others. fst x \<noteq> u) \<longrightarrow>
        cls_get u (snd (interleaved_run ((u, OpSet logger tid fresh) # others) rt)) = Inr logger
        \<and> cls_get_trace_id u (snd (interleaved_run ((u, OpSet logger None fresh) # others) rt))
            = uuid_str fresh
        \<and> cls_get_slow u (snd (interleaved_run ((u, OpSetSlow logger tid fresh) # others) rt))
            = Inr logger
        \<and> cls_get_trace_id u (snd (interleaved_run ((u, OpSetSlow logger None fresh) # others) rt))
            = uuid_str fresh)"
proof -
  have frame: "v \<noteq> u \<longrightarrow> snd (context_step u op rt) v = rt v"
    by (simp add: context_step_unit)
  have local: "rt u = rt' u \<longrightarrow>
        fst (context_step u op rt) = fst (context_step u op rt') \<and>
        snd (context_step u op rt) u = snd (context_step u op rt') u"
    by (simp add: context_step_unit)
  have own: "cls_get u (snd (interleaved_run ((u, OpSet logger tid fresh) # others) rt)) = Inr logger
        \<and> cls_get_trace_id u (snd (interleaved_run ((u, OpSet logger None fresh) # others) rt))
            = uuid_str fresh
        \<and> cls_get_slow u (snd (interleaved_run ((u, OpSetSlow logger tid fresh) # others) rt))
            = Inr logger
        \<and> cls_get_trace_id u (snd (interleaved_run ((u, OpSetSlow logger None fresh) # others) rt))
            = uuid_str fresh"
    if h: "\<forall>x \<in> set others. fst x \<noteq> u"
  proof -
    have e: "ops_of u ((u, op') # others) = [op']" for op'
      using ops_of_others [OF h] by (simp add: ops_of_def)
    have f: "snd (interleaved_run ((u, op') # others) rt) u = snd (unit_step op' (rt u))" for op'
      using interleaved_run_unit [of u "(u, op') # others" rt]
      by (simp add: e split: prod.splits)
    show ?thesis
      unfolding cls_get_def cls_get_slow_def cls_get_trace_id_def ContextVar_get_def f
      by (simp add: RequestLoggingContext_set_def RequestLoggingContext_set_slow_def Let_def)
  qed
  from frame local interleaved_run_unit [of u schedule rt] own show ?thesis by blast
qed

text \<open>
  The theorem at the schedule \<open>two_requests\<close>: each request installs its loggers and then
  reads, every read returns what the reading unit itself installed, and unit 3 finds
  nothing.
\<close>

theorem context_isolation_witness:
  "observed_by 1 (fst (interleaved_run two_requests (\<lambda>u. no_context)))
     = [Done, Done, Logger (Inr 0), Logger (Inr 1),
        TraceId ''0a1b2c3d-4e5f-4071-8293-a4b5c6d7e8f9'']
   \<and> observed_by 2 (fst (interleaved_run two_requests (\<lambda>u. no_context)))
     = [Done, Done, Logger (Inr 2), Logger (Inr 3),
        TraceId ''11112222-3333-4444-a555-666677778888'']
   \<and> observed_by 3 (fst (interleaved_run two_requests (\<lambda>u. no_context)))
     = [Logger (Inl LookupError), TraceId ''None'']
   \<and> (2 :: nat) \<noteq> 1
   \<and> snd (context_step 1 (OpSet 0 None uuid_b) (\<lambda>u. no_context)) 2 = no_context
   \<and> fst (context_step 1 OpGet ((\<lambda>u. no_context)(2 := RequestLoggingContext_set 2 None uuid_d no_context)))
       = fst (context_step 1 OpGet (\<lambda>u. no_context))
   \<and> cls_get 1 (snd (interleaved_run
        [(1, OpSet 0 None uuid_b), (2, OpSet 2 None uuid_d), (2, OpSetSlow 3 None uuid_e)]
        (\<lambda>u. no_context))) = Inr 0
   \<and> cls_get_trace_id 1 (snd (interleaved_run
        [(1, OpSetSlow 1 None uuid_c), (2, OpSet 2 None uuid_d), (2, OpSetSlow 3 None uuid_e)]
        (\<lambda>u. no_context))) = ''0a1b2c3d-4e5f-4071-8293-a4b5c6d7e8f9''"
proof -
  let ?rt = "\<lambda>u :: nat. no_context"
  let ?others = "[(2 :: nat, OpSet 2 None uuid_d), (2, OpSetSlow 3 None uuid_e)]"
  note defs = two_requests_def ops_of_def Let_def no_context_def RequestLoggingContext_set_def
    RequestLoggingContext_set_slow_def RequestLoggingContext_get_def
    RequestLoggingContext_get_slow_def RequestLoggingContext_get_trace_id_def
    uuid_c_str uuid_e_str
  have a: "observed_by 1 (fst (interleaved_run two_requests ?rt))
     = [Done, Done, Logger (Inr 0), Logger (Inr 1),
        TraceId ''0a1b2c3d-4e5f-4071-8293-a4b5c6d7e8f9'']"
    using context_isolation [of _ 1 _ ?rt ?rt two_requests "[]"] by (simp add: defs)
  have b: "observed_by 2 (fst (interleaved_run two_requests ?rt))
     = [Done, Done, Logger (Inr 2), Logger (Inr 3),
        TraceId ''11112222-3333-4444-a555-666677778888'']"
    using context_isolation [of _ 2 _ ?rt ?rt two_requests "[]"] by (simp add: defs)
  have c: "observed_by 3 (fst (interleaved_run two_requests ?rt))
     = [Logger (Inl LookupError), TraceId ''None'']"
    using context_isolation [of _ 3 _ ?rt ?rt two_requests "[]"] by (simp add: defs)
  have d: "snd (context_step 1 (OpSet 0 None uuid_b) ?rt) 2 = no_context"
    using context_isolation [of 2 1 "OpSet 0 None uuid_b" ?rt ?rt "[]" "[]"] by simp
  have e: "fst (context_step 1 OpGet (?rt(2 := RequestLoggingContext_set 2 None uuid_d no_context)))
       = fst (context_step 1 OpGet ?rt)"
    using context_isolation [of 2 1 OpGet
        "?rt(2 := RequestLoggingContext_set 2 None uuid_d no_context)" ?rt "[]" "[]"] by simp
  have f: "cls_get 1 (snd (interleaved_run ((1, OpSet 0 None uuid_b) # ?others) ?rt)) = Inr 0"
    using context_isolation [of 2 1 OpGet ?rt ?rt "[]" ?others 0 None uuid_b] by simp
  have g: "cls_get_trace_id 1 (snd (interleaved_run ((1, OpSetSlow 1 None uuid_c) # ?others) ?rt))
       = ''0a1b2c3d-4e5f-4071-8293-a4b5c6d7e8f9''"
    using context_isolation [of 2 1 OpGet ?rt ?rt "[]" ?others 1 None uuid_c]
    by (simp add: uuid_c_str)
  show ?thesis using a b c d e f g by simp
qed

section \<open>Claim C8: the slow-query record\<close>

text \<open>
  Claim C8. For every executed statement, \<^verbatim>\<open>after_cursor_execute\<close> appends to the emitted
  records exactly one slow-query record when the measured elapsed time is greater than or
  equal to the threshold, and nothing when it is below. The record is built by the slow
  logger of the context (or by the fallback adapter when the context has none); its
  \<^verbatim>\<open>duration_ms\<close> is the elapsed time times 1000, rounded to two decimal places, that is
  a multiple of 0.01 at most 0.005 away from the exact value. The hook leaves the adapters
  and the context as they are, and what it emits does not depend on the SQL buffers of
  the adapters. The threshold taken from the default settings is 2 seconds. The context's
  slow logger is assumed to be an existing adapter, as it is whenever the interceptor set
  it.
\<close>

theorem slow_query_threshold:
  assumes "\<forall>r. slow_logger_var (ctx s) = Some r \<longrightarrow> r < length (heap s)"
      and "s' = after_cursor_execute self statement params exec_ctx s"
      and "duration = elapsed exec_ctx s"
      and "slow_logger = (case slow_logger_var (ctx s) of
                            Some r \<Rightarrow> heap s ! r
                          | None \<Rightarrow> StructuredLoggingAdapter ''slow_query'' ''unknown'')"
  shows "emitted s' = emitted s @
           (if slow_threshold self \<le> duration
            then [build_extra slow_logger ''INFO'' ''SLOW_QUERY'' None
                    (Some (py_round2 (duration * 1000))) (Some [(statement, params)]) None
                    (get_kst_now_str s)]
            else [])
       \<and> py_round2 (duration * 1000) * 100 = of_int (round_half_even (duration * 1000 * 100))
       \<and> \<bar>py_round2 (duration * 1000) - duration * 1000\<bar> \<le> 1 / 200
       \<and> heap s' = heap s \<and> ctx s' = ctx s
       \<and> emitted (after_cursor_execute self statement params exec_ctx
                    (s\<lparr>heap := map (\<lambda>a. a\<lparr>sql_logs := buffer a\<rparr>) (heap s)\<rparr>)) = emitted s'
       \<and> slow_threshold (SqlQueryLogging_init default_settings) = 2"
proof -
  have e: "emitted s' = emitted s @
           (if slow_threshold self \<le> duration
            then [build_extra slow_logger ''INFO'' ''SLOW_QUERY'' None
                    (Some (py_round2 (duration * 1000))) (Some [(statement, params)]) None
                    (get_kst_now_str s)]
            else [])"
    using assms by (simp add: after_cursor_execute_def Let_def log_slow_query_emits)
  have h: "heap s' = heap s"
    using assms by (simp add: after_cursor_execute_def Let_def log_slow_query_emits)
  have c: "ctx s' = ctx s"
    using assms by (simp add: after_cursor_execute_def Let_def log_slow_query_emits)
  let ?s2 = "s\<lparr>heap := map (\<lambda>a. a\<lparr>sql_logs := buffer a\<rparr>) (heap s)\<rparr>"
  have wf2: "\<forall>r. slow_logger_var (ctx ?s2) = Some r \<longrightarrow> r < length (heap ?s2)"
    using assms(1) by simp
  have el: "elapsed exec_ctx ?s2 = elapsed exec_ctx s"
    by (simp add: elapsed_def split: option.splits)
  have t: "get_kst_now_str ?s2 = get_kst_now_str s" by (simp add: get_kst_now_str_def)
  have i: "emitted (after_cursor_execute self statement params exec_ctx ?s2) = emitted s'"
    using assms(1,2)
    by (auto simp: after_cursor_execute_def Let_def log_slow_query_emits [OF wf2]
          log_slow_query_emits [OF assms(1)] el t build_extra_def split: option.splits)
  have d: "slow_threshold (SqlQueryLogging_init default_settings) = 2"
    by (simp add: SqlQueryLogging_init_def default_settings_def)
  from e h c i d py_round2_hundredths [of "duration * 1000"] py_round2_near [of "duration * 1000"]
  show ?thesis by simp
qed

text \<open>
  The theorem while the request for \<^verbatim>\<open>/v1/employee/12\<close> is served, with the default
  threshold: a statement that took exactly 2 seconds yields one record with 2000 ms, a
  statement that took 0.95 seconds yields none.
\<close>

theorem slow_query_threshold_witness:
  "emitted (after_cursor_execute default_hooks ''SELECT SLEEP(2)'' PyNone
              \<lparr>query_start_time = Some 998\<rparr> serving_state)
     = [\<lparr>ev_logger = ''slow_query'', ev_level = ''INFO'', ev_trace_id = ''9f8e7d6c'',
         ev_log_type = ''SLOW_QUERY'', ev_method = ''GET'', ev_path = ''/v1/employee/12'',
         ev_handler = ''get_employee'', ev_status_code = None, ev_duration_ms = Some 2000,
         ev_time = 33400, ev_log_message = None, ev_sql = Some [(''SELECT SLEEP(2)'', PyNone)]\<rparr>]
   \<and> emitted (after_cursor_execute default_hooks ''SELECT 1'' PyNone
              \<lparr>query_start_time = Some (19981 / 20)\<rparr> serving_state) = []
   \<and> slow_threshold default_hooks = 2
   \<and> elapsed \<lparr>query_start_time = Some 998\<rparr> serving_state = 2
   \<and> elapsed \<lparr>query_start_time = Some (19981 / 20)\<rparr> serving_state = 19 / 20"
proof -
  have v: "slow_logger_var (ctx serving_state) = Some (Suc 0)"
    by (simp add: serving_state_def)
  have wf: "\<forall>r. slow_logger_var (ctx serving_state) = Some r \<longrightarrow> r < length (heap serving_state)"
    by (simp add: serving_state_def)
  have e1: "elapsed \<lparr>query_start_time = Some 998\<rparr> serving_state = 2"
    by (simp add: elapsed_def serving_state_def)
  have e2: "elapsed \<lparr>query_start_time = Some (19981 / 20)\<rparr> serving_state = 19 / 20"
    by (simp add: elapsed_def serving_state_def)
  have th: "slow_threshold default_hooks = 2"
    by (simp add: default_hooks_def SqlQueryLogging_init_def default_settings_def)
  have em: "emitted serving_state = []" by (simp add: serving_state_def)
  have ev: "build_extra (heap serving_state ! Suc 0) ''INFO'' ''SLOW_QUERY'' None (Some 2000)
              (Some [(''SELECT SLEEP(2)'', PyNone)]) None (get_kst_now_str serving_state)
     = \<lparr>ev_logger = ''slow_query'', ev_level = ''INFO'', ev_trace_id = ''9f8e7d6c'',
         ev_log_type = ''SLOW_QUERY'', ev_method = ''GET'', ev_path = ''/v1/employee/12'',
         ev_handler = ''get_employee'', ev_status_code = None, ev_duration_ms = Some 2000,
         ev_time = 33400, ev_log_message = None, ev_sql = Some [(''SELECT SLEEP(2)'', PyNone)]\<rparr>"
    by (simp add: build_extra_def get_kst_now_str_def serving_state_def
          start_structured_def StructuredLoggingAdapter_def)
  have a: "emitted (after_cursor_execute default_hooks ''SELECT SLEEP(2)'' PyNone
              \<lparr>query_start_time = Some 998\<rparr> serving_state)
     = [\<lparr>ev_logger = ''slow_query'', ev_level = ''INFO'', ev_trace_id = ''9f8e7d6c'',
         ev_log_type = ''SLOW_QUERY'', ev_method = ''GET'', ev_path = ''/v1/employee/12'',
         ev_handler = ''get_employee'', ev_status_code = None, ev_duration_ms = Some 2000,
         ev_time = 33400, ev_log_message = None, ev_sql = Some [(''SELECT SLEEP(2)'', PyNone)]\<rparr>]"
    using slow_query_threshold [OF wf refl refl refl, THEN conjunct1,
        of default_hooks "''SELECT SLEEP(2)''" PyNone "\<lparr>query_start_time = Some 998\<rparr>"]
    by (simp add: e1 th round_2000 v em ev)
  have b: "emitted (after_cursor_execute default_hooks ''SELECT 1'' PyNone
              \<lparr>query_start_time = Some (19981 / 20)\<rparr> serving_state) = []"
    using slow_query_threshold [OF wf refl refl refl, THEN conjunct1,
        of default_hooks "''SELECT 1''" PyNone "\<lparr>query_start_time = Some (19981 / 20)\<rparr>"]
    by (simp add: e2 th em)
  show ?thesis using a b th e1 e2 by simp
qed

section \<open>Claim C9: the SQL hooks outside a request\<close>

text \<open>
  Claim C9. With no logger in the context, \<^verbatim>\<open>before_cursor_execute\<close> records the start
  time, buffers nothing, changes nothing else and lets no exception out (the
  \<^verbatim>\<open>LookupError\<close> of the lookup is caught). With no slow logger in the context,
  \<^verbatim>\<open>_log_slow_query\<close> emits the slow-query record through an adapter built on the
  \<^verbatim>\<open>slow_query\<close> logger with the trace id \<^verbatim>\<open>unknown\<close>, so \<^verbatim>\<open>after_cursor_execute\<close> still
  emits one record for every statement that reaches the threshold.
\<close>

theorem hooks_without_context:
  "(logger_var (ctx s) = None \<longrightarrow>
      before_cursor_execute statement params exec_ctx executemany s
        = (None, exec_ctx\<lparr>query_start_time := Some (time_time s)\<rparr>, s))
   \<and> (slow_logger_var (ctx s) = None \<longrightarrow>
      log_slow_query statement params ms s =
        s\<lparr>emitted := emitted s @
           [\<lparr>ev_logger = ''slow_query'', ev_level = ''INFO'', ev_trace_id = ''unknown'',
             ev_log_type = ''SLOW_QUERY'', ev_method = [], ev_path = [], ev_handler = [],
             ev_status_code = None, ev_duration_ms = Some ms, ev_time = get_kst_now_str s,
             ev_log_message = None, ev_sql = Some [(statement, params)]\<rparr>]\<rparr>)
   \<and> (slow_logger_var (ctx s) = None \<and> slow_threshold self \<le> elapsed exec_ctx s \<longrightarrow>
      emitted (after_cursor_execute self statement params exec_ctx s) =
        emitted s @
           [\<lparr>ev_logger = ''slow_query'', ev_level = ''INFO'', ev_trace_id = ''unknown'',
             ev_log_type = ''SLOW_QUERY'', ev_method = [], ev_path = [], ev_handler = [],
             ev_status_code = None,
             ev_duration_ms = Some (py_round2 (elapsed exec_ctx s * 1000)),
             ev_time = get_kst_now_str s,
             ev_log_message = None, ev_sql = Some [(statement, params)]\<rparr>])"
  by (simp add: before_cursor_execute_def Let_def RequestLoggingContext_get_def
        log_slow_query_def RequestLoggingContext_get_slow_def slow_sql_structured_def
        info_def build_extra_def StructuredLoggingAdapter_def after_cursor_execute_def)

text \<open>
  The theorem in the state outside any request: the before hook only records the start
  time 1000, and a statement that took 3 seconds is reported with the trace id
  \<^verbatim>\<open>unknown\<close>.
\<close>

theorem hooks_without_context_witness:
  "logger_var (ctx idle_state) = None \<and> slow_logger_var (ctx idle_state) = None
   \<and> before_cursor_execute ''SELECT 1'' PyNone \<lparr>query_start_time = None\<rparr> False idle_state
       = (None, \<lparr>query_start_time = Some 1000\<rparr>, idle_state)
   \<and> slow_threshold default_hooks \<le> elapsed \<lparr>query_start_time = Some 997\<rparr> idle_state
   \<and> emitted (after_cursor_execute default_hooks ''SELECT SLEEP(3)'' PyNone
                \<lparr>query_start_time = Some 997\<rparr> idle_state)
       = [\<lparr>ev_logger = ''slow_query'', ev_level = ''INFO'', ev_trace_id = ''unknown'',
           ev_log_type = ''SLOW_QUERY'', ev_method = [], ev_path = [], ev_handler = [],
           ev_status_code = None, ev_duration_ms = Some 3000, ev_time = 33400,
           ev_log_message = None, ev_sql = Some [(''SELECT SLEEP(3)'', PyNone)]\<rparr>]"
proof -
  have c: "logger_var (ctx idle_state) = None" "slow_logger_var (ctx idle_state) = None"
    by (simp_all add: idle_state_def no_context_def)
  have e: "elapsed \<lparr>query_start_time = Some 997\<rparr> idle_state = 3"
    by (simp add: elapsed_def idle_state_def)
  have th: "slow_threshold default_hooks = 2"
    by (simp add: default_hooks_def SqlQueryLogging_init_def default_settings_def)
  have t: "time_time idle_state = 1000" "emitted idle_state = []" "get_kst_now_str idle_state = 33400"
    by (simp_all add: idle_state_def get_kst_now_str_def)
  have a: "before_cursor_execute ''SELECT 1'' PyNone \<lparr>query_start_time = None\<rparr> False idle_state
       = (None, \<lparr>query_start_time = Some 1000\<rparr>, idle_state)"
    using hooks_without_context [where s = idle_state and statement = "''SELECT 1''"
        and params = PyNone and exec_ctx = "\<lparr>query_start_time = None\<rparr>"
        and executemany = False, THEN conjunct1]
    by (simp add: c t)
  have b: "emitted (after_cursor_execute default_hooks ''SELECT SLEEP(3)'' PyNone
                \<lparr>query_start_time = Some 997\<rparr> idle_state)
       = [\<lparr>ev_logger = ''slow_query'', ev_level = ''INFO'', ev_trace_id = ''unknown'',
           ev_log_type = ''SLOW_QUERY'', ev_method = [], ev_path = [], ev_handler = [],
           ev_status_code = None, ev_duration_ms = Some 3000, ev_time = 33400,
           ev_log_message = None, ev_sql = Some [(''SELECT SLEEP(3)'', PyNone)]\<rparr>]"
    using hooks_without_context [where s = idle_state and statement = "''SELECT SLEEP(3)''"
        and params = PyNone and exec_ctx = "\<lparr>query_start_time = Some 997\<rparr>"
        and self = default_hooks, THEN conjunct2, THEN conjunct2]
    by (simp add: c e th round_3000 t)
  show ?thesis using a b c e th by simp
qed

section \<open>Claim C10: the trace id stored in the context is not the request's trace id\<close>

text \<open>
  Claim C10. \<^verbatim>\<open>set\<close> and \<^verbatim>\<open>set_slow\<close>, called without a trace id, each store the text of a
  freshly drawn UUID in the trace-id variable, the second call overwriting the first.
  So after the interceptor has set a request up, the adapters it built and installed in
  the context hold the 8-character trace id, while \<^verbatim>\<open>get_trace_id()\<close> returns the
  36-character UUID text drawn by \<^verbatim>\<open>set_slow\<close>, which differs from it. This remains so
  until the request ends: when \<^verbatim>\<open>custom_handler\<close> returns or raises, \<^verbatim>\<open>get_trace_id()\<close>
  is still a 36-character text different from the trace id that a returned response
  carries in \<^verbatim>\<open>X-Trace-Id\<close>.
\<close>

theorem context_trace_id_differs:
  assumes "request_setup ep req u1 u2 u3 s = (logger, slow_logger, tid, s1)"
      and "custom_handler hooks ep req u1 u2 u3 s = (result, s')"
  shows "tid = take 8 (uuid_str u1) \<and> length tid = 8
       \<and> map_option trace_id (deref s1 logger) = Some tid
       \<and> map_option trace_id (deref s1 slow_logger) = Some tid
       \<and> logger_var (ctx s1) = Some logger \<and> slow_logger_var (ctx s1) = Some slow_logger
       \<and> RequestLoggingContext_get_trace_id (RequestLoggingContext_set logger None u2 (ctx s))
           = uuid_str u2
       \<and> RequestLoggingContext_get_trace_id
           (RequestLoggingContext_set_slow slow_logger None u3
              (RequestLoggingContext_set logger None u2 (ctx s))) = uuid_str u3
       \<and> RequestLoggingContext_get_trace_id (ctx s1) = uuid_str u3
       \<and> length (RequestLoggingContext_get_trace_id (ctx s1)) = 36
       \<and> RequestLoggingContext_get_trace_id (ctx s1) \<noteq> tid
       \<and> length (RequestLoggingContext_get_trace_id (ctx s')) = 36
       \<and> RequestLoggingContext_get_trace_id (ctx s') \<noteq> tid
       \<and> (\<forall>resp. result = Inr resp \<longrightarrow> headers resp ''X-Trace-Id'' = Some tid)"
proof -
  from inv_setup [OF assms(1)]
  have tid: "tid = take 8 (uuid_str u1)"
    and i1: "request_inv logger slow_logger tid (length (emitted s)) s1"
    by auto
  have l8: "length tid = 8" by (simp add: tid length_uuid_str)
  have a: "map_option trace_id (deref s1 logger) = Some tid
       \<and> map_option trace_id (deref s1 slow_logger) = Some tid
       \<and> logger_var (ctx s1) = Some logger \<and> slow_logger_var (ctx s1) = Some slow_logger
       \<and> RequestLoggingContext_get_trace_id (ctx s1) = uuid_str u3"
    using assms(1)
    by (auto simp: request_setup_def Let_def alloc_def on_adapter_def deref_def
          RequestLoggingContext_set_def RequestLoggingContext_set_slow_def
          RequestLoggingContext_get_trace_id_def start_structured_def clone_with_logger_def
          StructuredLoggingAdapter_def nth_append)
  have w: "RequestLoggingContext_get_trace_id (RequestLoggingContext_set logger None u2 (ctx s))
           = uuid_str u2
       \<and> RequestLoggingContext_get_trace_id
           (RequestLoggingContext_set_slow slow_logger None u3
              (RequestLoggingContext_set logger None u2 (ctx s))) = uuid_str u3"
    by (simp add: RequestLoggingContext_set_def RequestLoggingContext_set_slow_def
          RequestLoggingContext_get_trace_id_def)
  obtain res s2 where oh: "original_handler hooks ep s1 = (res, s2)"
    by (cases "original_handler hooks ep s1")
  have i2: "request_inv logger slow_logger tid (length (emitted s)) s2"
    by (rule inv_original_handler [OF i1 oh])
  have r1: "logger < length (heap s2)" using i2 by (simp add: request_inv_def)
  have c: "ctx s' = ctx s2"
  proof (cases res)
    case (Inl e)
    with assms oh show ?thesis by (simp add: custom_handler_def Let_def)
  next
    case (Inr resp0)
    with assms oh have "s' = end_structured (status_code resp0)
        (py_round2 ((time_time s2 - time_time s) * 1000)) logger s2"
      by (simp add: custom_handler_def Let_def)
    then show ?thesis using end_structured_events [OF r1] by metis
  qed
  have h: "\<forall>resp. result = Inr resp \<longrightarrow> headers resp ''X-Trace-Id'' = Some tid"
    using assms oh by (cases res) (auto simp: custom_handler_def Let_def)
  from get_trace_id_inv [OF i1 l8] get_trace_id_inv [OF i2 l8] c tid l8 a w h
  show ?thesis by simp
qed

text \<open>
  The theorem at the request \<^verbatim>\<open>GET /v1/employee/12\<close>: the header and the adapters carry
  \<^verbatim>\<open>9f8e7d6c\<close>, the context answers with the UUID drawn last.
\<close>

theorem context_trace_id_differs_witness:
  "request_setup get_employee get_employee_request uuid_a uuid_b uuid_c idle_state
     = (0, 1, ''9f8e7d6c'',
        serving_state\<lparr>ctx := (ctx serving_state)\<lparr>trace_id_var := Some (uuid_str uuid_c)\<rparr>\<rparr>)
   \<and> fst (custom_handler default_hooks get_employee get_employee_request uuid_a uuid_b uuid_c idle_state)
     = Inr \<lparr>status_code = 200, headers = [''X-Trace-Id'' \<mapsto> ''9f8e7d6c'']\<rparr>
   \<and> RequestLoggingContext_get_trace_id
        (ctx (snd (custom_handler default_hooks get_employee get_employee_request
                     uuid_a uuid_b uuid_c idle_state)))
     = ''0a1b2c3d-4e5f-4071-8293-a4b5c6d7e8f9''
   \<and> length (RequestLoggingContext_get_trace_id
        (ctx (snd (custom_handler default_hooks get_employee get_employee_request
                     uuid_a uuid_b uuid_c idle_state)))) = 36
   \<and> RequestLoggingContext_get_trace_id
        (ctx (snd (custom_handler default_hooks get_employee get_employee_request
                     uuid_a uuid_b uuid_c idle_state))) \<noteq> ''9f8e7d6c''"
proof -
  let ?run = "custom_handler default_hooks get_employee get_employee_request uuid_a uuid_b uuid_c idle_state"
  have h: "?run = (fst ?run, snd ?run)" by simp
  have t: "take 8 (uuid_str uuid_a) = ''9f8e7d6c''" by (simp add: uuid_a_str)
  from context_trace_id_differs [OF get_employee_setup h]
  have "length (RequestLoggingContext_get_trace_id (ctx (snd ?run))) = 36"
       "RequestLoggingContext_get_trace_id (ctx (snd ?run)) \<noteq> ''9f8e7d6c''"
    by (simp_all add: t)
  then show ?thesis
    using get_employee_setup get_employee_served get_employee_context by simp
qed

end
